theory Spec2Isabelle
  imports Main
begin

section \<open>Data shared by both quiz scripts\<close>

text \<open>
  A question document, as both scripts read it: \<^verbatim>\<open>q["question"]\<close>, \<^verbatim>\<open>q["options"]\<close>,
  \<^verbatim>\<open>q["answer"]\<close>, \<^verbatim>\<open>q["marks"]\<close>. Marks are Python numbers: integers in
  \<^verbatim>\<open>quiz_app.py\<close>, floats in the documents the teacher panel of \<^verbatim>\<open>q/q.py\<close> stores (its
  number input starts at \<^verbatim>\<open>1.0\<close>). The type \<open>'n\<close> stands for them. Strings are lists of
  characters with codes below 256.
\<close>

record 'n question =
  question_text :: string
  options :: "string list"
  answer :: string
  marks :: 'n

text \<open>
  The exceptions of the two quiz flows: a list subscript out of range, and what
  \<^verbatim>\<open>insert_one\<close> raises without writing: \<^verbatim>\<open>OverflowError\<close> when the document holds
  an integer beyond eight bytes, \<^verbatim>\<open>OperationFailure\<close> when the server refuses the write.
\<close>

datatype py_error = IndexError | OverflowError | OperationFailure

section \<open>The database-backed student panel of \<^verbatim>\<open>q/q.py\<close>\<close>

text \<open>
  One entry of \<^verbatim>\<open>st.session_state.answers\<close> (lines 376-381). The radio widget yields
  \<^verbatim>\<open>None\<close> when it has nothing to select, so the selection is an option value.
\<close>

record answer_entry =
  entry_question :: string
  selected :: "string option"
  correct :: string
  is_correct :: bool

text \<open>The three session variables the panel sets together (lines 360-363).\<close>

record 'n quiz_vars =
  index :: nat
  score :: 'n
  answers :: "answer_entry list"

text \<open>
  The document \<^verbatim>\<open>save_attempt\<close> inserts (lines 93-101). User name, course code and
  time stamp are written as given and are left out here.
\<close>

record 'n attempt =
  att_score :: 'n
  max_score :: 'n
  details :: "answer_entry list"

text \<open>
  What a rerun of the panel can change: the session variables (\<open>None\<close> while
  \<^verbatim>\<open>"index" not in st.session_state\<close>) and the attempts collection.
\<close>

record 'n world =
  session :: "'n quiz_vars option"
  attempts :: "'n attempt list"

datatype 'n notice = No_questions | Quiz_finished 'n

text \<open>
  What the panel calls and the repository does not define. \<open>py_sum\<close> is the built-in
  \<^verbatim>\<open>sum\<close> on a list of marks; it is exact on integers, and how it rounds floats is the
  interpreter's business. \<open>insert_one\<close> tells which exception
  \<^verbatim>\<open>db.attempts.insert_one\<close> raises on a document without writing it, if any; such a
  document is not stored. Of the arithmetic of marks the panel uses \<open>+\<close> and \<open>0\<close>, and no law of
  either is assumed.
\<close>

record 'n library =
  py_sum :: "'n list \<Rightarrow> 'n"
  insert_one :: "'n attempt \<Rightarrow> py_error option"

definition fresh :: "'n::zero quiz_vars" where
  "fresh = \<lparr>index = 0, score = 0, answers = []\<rparr>"

text \<open>Lines 372-381: compare, add the marks, append the entry.\<close>

definition record_answer ::
  "'n::plus question \<Rightarrow> string option \<Rightarrow> 'n quiz_vars \<Rightarrow> 'n quiz_vars" where
  "record_answer q choice s =
     (let corr = (choice = Some (answer q));
          s1 = (if corr then s\<lparr>score := score s + marks q\<rparr> else s)
      in s1\<lparr>answers := answers s1 @
            [\<lparr>entry_question = question_text q, selected = choice,
              correct = answer q, is_correct = corr\<rparr>]\<rparr>)"

text \<open>
  One run of the script below \<^verbatim>\<open>if course:\<close> (lines 355-395), from the point where
  \<^verbatim>\<open>get_questions(course)\<close> has returned. \<open>questions\<close> is what it returns in this run, \<open>choice\<close> the value of the radio
  widget, \<open>submit\<close> whether the run was caused by a click on "Submit Answer". A run that
  raises keeps what it has written to the session variables before, so an exception
  comes with the world it leaves. On the last question that is the score and the log
  with the new answer: they are written in lines 374-381, \<^verbatim>\<open>save_attempt\<close> is called in
  line 387, and the reset follows in lines 393-395.
\<close>

definition student_panel ::
  "'n::{plus,zero} library \<Rightarrow> 'n question list \<Rightarrow> string option \<Rightarrow> bool \<Rightarrow> 'n world
     \<Rightarrow> (py_error \<times> 'n world) + ('n notice list \<times> 'n world)" where
  "student_panel lib questions choice submit w =
     (if questions = [] then Inr ([No_questions], w)
      else
        let s = (case session w of None \<Rightarrow> fresh | Some v \<Rightarrow> v) in
        if length questions \<le> index s then Inl (IndexError, w\<lparr>session := Some s\<rparr>)
        else
          let q = questions ! index s in
          if submit then
            let s2 = record_answer q choice s in
            if index s2 + 1 < length questions
            then Inr ([], w\<lparr>session := Some (s2\<lparr>index := index s2 + 1\<rparr>)\<rparr>)
            else
              let a = \<lparr>att_score = score s2,
                       max_score = py_sum lib (map marks questions),
                       details = answers s2\<rparr>
              in (case insert_one lib a of
                    Some e \<Rightarrow> Inl (e, w\<lparr>session := Some s2\<rparr>)
                  | None \<Rightarrow>
                      Inr ([Quiz_finished (score s2)],
                           \<lparr>session = Some fresh, attempts = attempts w @ [a]\<rparr>))
          else Inr ([], w\<lparr>session := Some s\<rparr>))"


text \<open>
  A student's clicks, one run of the panel per click, up to the first run that raises.
  Each run reads the question bank again and meets the storage as it then is, so a run
  is given both together with the selection.
\<close>

fun submit_all ::
  "('n::{plus,zero} library \<times> 'n question list \<times> string option) list \<Rightarrow> 'n world
     \<Rightarrow> (py_error \<times> 'n world) + 'n world" where
  "submit_all [] w = Inr w"
| "submit_all ((lib, questions, choice) # rest) w =
     (case student_panel lib questions choice True w of
        Inl ew \<Rightarrow> Inl ew
      | Inr (ns, w') \<Rightarrow> submit_all rest w')"

text \<open>The same with a question bank nobody edits meanwhile.\<close>

definition take_quiz ::
  "'n::{plus,zero} library \<Rightarrow> 'n question list \<Rightarrow> string option list \<Rightarrow> 'n world
     \<Rightarrow> (py_error \<times> 'n world) + 'n world" where
  "take_quiz lib questions choices w =
     submit_all (map (\<lambda>c. (lib, questions, c)) choices) w"

text \<open>The world of a student who has just opened a course with questions.\<close>

definition opened :: "'n::zero world" where
  "opened = \<lparr>session = Some fresh, attempts = []\<rparr>"

text \<open>
  Two libraries over integer marks. The first is the driver as it encodes integers: up
  to eight bytes, \<^verbatim>\<open>OverflowError\<close> beyond. The second is a server that answers every
  query and refuses every write, as it does to a user with no right to insert.
\<close>

definition int64 :: "int \<Rightarrow> bool" where
  "int64 n = (- 9223372036854775808 \<le> n \<and> n < 9223372036854775808)"

definition int_library :: "int library" where
  "int_library =
     \<lparr>py_sum = sum_list,
      insert_one = (\<lambda>a. if int64 (att_score a) \<and> int64 (max_score a)
                         then None else Some OverflowError)\<rparr>"

definition read_only_server :: "int library" where
  "read_only_server = \<lparr>py_sum = sum_list, insert_one = (\<lambda>a. Some OperationFailure)\<rparr>"

subsection \<open>The teacher's "Add Question" click (lines 230-238)\<close>

text \<open>
  \<^verbatim>\<open>str.split(",")\<close> and \<^verbatim>\<open>str.strip()\<close>, the latter over the characters below 256 that
  Python counts as white space: the ASCII ones, next line (0x85) and no-break space
  (0xA0).
\<close>

fun split_comma :: "string \<Rightarrow> string list" where
  "split_comma [] = [[]]"
| "split_comma (c # cs) =
     (if c = CHR '','' then [] # split_comma cs
      else (case split_comma cs of
              [] \<Rightarrow> [[c]]
            | p # ps \<Rightarrow> (c # p) # ps))"

definition isspace :: "char \<Rightarrow> bool" where
  "isspace c = (c \<in> set [CHR 0x09, CHR 0x0A, CHR 0x0B, CHR 0x0C, CHR 0x0D,
                          CHR 0x1C, CHR 0x1D, CHR 0x1E, CHR 0x1F, CHR 0x20,
                          CHR 0x85, CHR 0xA0])"

definition strip :: "string \<Rightarrow> string" where
  "strip s = rev (dropWhile isspace (rev (dropWhile isspace s)))"

datatype 'n add_outcome =
    Fill_all_fields
  | Answer_must_be_option
  | Question_added string "'n question"

definition add_question_click ::
  "string \<Rightarrow> string \<Rightarrow> string \<Rightarrow> string \<Rightarrow> 'n \<Rightarrow> 'n add_outcome" where
  "add_question_click course qtext options_raw ans mk =
     (let opts = filter (\<lambda>p. p \<noteq> []) (map strip (split_comma options_raw)) in
      if course = [] \<or> qtext = [] \<or> opts = [] \<or> ans = [] then Fill_all_fields
      else if ans \<notin> set opts then Answer_must_be_option
      else Question_added course
             \<lparr>question_text = qtext, options = opts, answer = ans, marks = mk\<rparr>)"

section \<open>The inline quiz of \<^verbatim>\<open>quiz_app.py\<close>\<close>

definition QUESTIONS :: "int question list" where
  "QUESTIONS =
     [\<lparr>question_text = ''Which keyword is used to define a function in Python?'',
       options = [''func'', ''def'', ''function'', ''lambda''],
       answer = ''def'', marks = 1\<rparr>,
      \<lparr>question_text = ''Which data type is immutable?'',
       options = [''list'', ''dict'', ''set'', ''tuple''],
       answer = ''tuple'', marks = 1\<rparr>]"

text \<open>
  The session variables \<^verbatim>\<open>current\<close>, \<^verbatim>\<open>score\<close> and \<^verbatim>\<open>finished\<close> (lines 20-25); the score
  is called \<open>points\<close> here, the name \<open>score\<close> being taken by the other script. The marks
  of this script are integers.
\<close>

record quiz_state =
  current :: nat
  points :: int
  finished :: bool

definition initial :: quiz_state where
  "initial = \<lparr>current = 0, points = 0, finished = False\<rparr>"

text \<open>A run is caused by at most one button.\<close>

datatype button = Restart_quiz | Submit_answer | No_button

datatype message =
    Quiz_finished_score int int
  | Please_select
  | Correct
  | Wrong string

text \<open>
  One run of the script (lines 29-61) over a question list \<open>qs\<close>; the script itself
  runs it on \<open>QUESTIONS\<close>. \<^verbatim>\<open>st.rerun()\<close> ends the run; the run it starts is one with
  \<open>No_button\<close>.
\<close>

definition quiz_app ::
  "int question list \<Rightarrow> button \<Rightarrow> string option \<Rightarrow> quiz_state
     \<Rightarrow> py_error + (message list \<times> quiz_state)" where
  "quiz_app qs b choice s0 =
     (let s = (if b = Restart_quiz then initial else s0) in
      if finished s
      then Inr ([Quiz_finished_score (points s) (sum_list (map marks qs))], s)
      else if length qs \<le> current s then Inl IndexError
      else
        let q = qs ! current s in
        if b = Submit_answer then
          (case choice of
             None \<Rightarrow> Inr ([Please_select], s)
           | Some c \<Rightarrow>
               let (m, s1) = (if c = answer q
                              then (Correct, s\<lparr>points := points s + marks q\<rparr>)
                              else (Wrong (answer q), s))
               in if current s1 + 1 < length qs
                  then Inr ([m], s1\<lparr>current := current s1 + 1\<rparr>)
                  else Inr ([m], s1\<lparr>finished := True\<rparr>))
        else Inr ([], s))"

text \<open>A sequence of clicks on "Submit answer", collecting what each run shows.\<close>

fun press_all ::
  "int question list \<Rightarrow> string option list \<Rightarrow> quiz_state
     \<Rightarrow> py_error + (message list \<times> quiz_state)" where
  "press_all qs [] s = Inr ([], s)"
| "press_all qs (c # cs) s =
     (case quiz_app qs Submit_answer c s of
        Inl e \<Rightarrow> Inl e
      | Inr (ms, s') \<Rightarrow>
          (case press_all qs cs s' of
             Inl e \<Rightarrow> Inl e
           | Inr (ms', s'') \<Rightarrow> Inr (ms @ ms', s'')))"

section \<open>What a sequence of answers is worth\<close>

text \<open>
  The entries a question list and a list of selections determine, and the score they
  add up to from a given start, question by question as the scripts add.
\<close>

definition entry_for :: "'n question \<Rightarrow> string option \<Rightarrow> answer_entry" where
  "entry_for q c =
     \<lparr>entry_question = question_text q, selected = c,
      correct = answer q, is_correct = (c = Some (answer q))\<rparr>"

definition entries :: "'n question list \<Rightarrow> string option list \<Rightarrow> answer_entry list" where
  "entries qs cs = map (\<lambda>(q, c). entry_for q c) (zip qs cs)"

definition tally :: "'n::plus \<Rightarrow> ('n question \<times> string option) list \<Rightarrow> 'n" where
  "tally start zs =
     foldl (\<lambda>acc (q, c). if c = Some (answer q) then acc + marks q else acc) start zs"

definition verdict :: "int question \<Rightarrow> string \<Rightarrow> message" where
  "verdict q c = (if c = answer q then Correct else Wrong (answer q))"

definition verdicts :: "int question list \<Rightarrow> string list \<Rightarrow> message list" where
  "verdicts qs cs = map (\<lambda>(q, c). verdict q c) (zip qs cs)"

section \<open>The session variables and the log\<close>

text \<open>
  The entries of \<^verbatim>\<open>q/q.py\<close> store the verdict but not the marks; the marks an entry
  stands for are those of the question at its position in the list, and an entry
  logged as incorrect adds nothing.
\<close>

definition awarded :: "'n::{plus,zero} question list \<Rightarrow> answer_entry list \<Rightarrow> 'n" where
  "awarded qs es =
     foldl (\<lambda>acc (q, e). if is_correct e then acc + marks q else acc) 0 (zip qs es)"

definition log_ok :: "'n::{plus,zero} question list \<Rightarrow> 'n world \<Rightarrow> bool" where
  "log_ok qs w =
     (case session w of
        None \<Rightarrow> False
      | Some s \<Rightarrow> index s < length qs \<and> length (answers s) = index s
                  \<and> score s = awarded qs (answers s))"

section \<open>One run of each script, in closed form\<close>

lemma tally_Nil [simp]: "tally start [] = start"
  by (simp add: tally_def)

lemma tally_Cons:
  "tally start ((q, c) # zs) =
     tally (if c = Some (answer q) then start + marks q else start) zs"
  by (simp add: tally_def)

lemma entries_Cons: "entries (q # qs) (c # cs) = entry_for q c # entries qs cs"
  by (simp add: entries_def)

lemma entries_Nil [simp]: "entries qs [] = []"
  by (simp add: entries_def)

lemma length_entries: "length (entries qs cs) = min (length qs) (length cs)"
  by (simp add: entries_def)

lemma record_answer_eq:
  "record_answer q c s =
     \<lparr>index = index s,
      score = (if c = Some (answer q) then score s + marks q else score s),
      answers = answers s @ [entry_for q c]\<rparr>"
  by (simp add: record_answer_def entry_for_def Let_def)

lemma panel_submit:
  assumes "session w = Some s" and "index s < length qs"
  shows "student_panel lib qs c True w =
           (if index s + 1 < length qs
            then Inr ([], w\<lparr>session := Some ((record_answer (qs ! index s) c s)\<lparr>index := index s + 1\<rparr>)\<rparr>)
            else (case insert_one lib
                         \<lparr>att_score = score (record_answer (qs ! index s) c s),
                          max_score = py_sum lib (map marks qs),
                          details = answers (record_answer (qs ! index s) c s)\<rparr> of
                    Some e \<Rightarrow> Inl (e, w\<lparr>session := Some (record_answer (qs ! index s) c s)\<rparr>)
                  | None \<Rightarrow>
                      Inr ([Quiz_finished (score (record_answer (qs ! index s) c s))],
                           \<lparr>session = Some fresh,
                            attempts = attempts w @
                              [\<lparr>att_score = score (record_answer (qs ! index s) c s),
                                max_score = py_sum lib (map marks qs),
                                details = answers (record_answer (qs ! index s) c s)\<rparr>]\<rparr>)))"
proof -
  from assms(2) have ne: "qs \<noteq> []" by auto
  have ix: "index (record_answer (qs ! index s) c s) = index s"
    by (simp add: record_answer_eq)
  show ?thesis
    using assms ne by (simp add: student_panel_def Let_def ix)
qed

lemma take_quiz_Nil [simp]: "take_quiz lib qs [] w = Inr w"
  by (simp add: take_quiz_def)

lemma take_quiz_Cons:
  "take_quiz lib qs (c # cs) w =
     (case student_panel lib qs c True w of
        Inl ew \<Rightarrow> Inl ew
      | Inr (ns, w') \<Rightarrow> take_quiz lib qs cs w')"
  by (simp add: take_quiz_def split: sum.split prod.split)

lemma take_quiz_advance:
  assumes "session w = Some s" and "index s + length cs < length qs"
  shows "take_quiz lib qs cs w =
           Inr (w\<lparr>session := Some \<lparr>index = index s + length cs,
                                   score = tally (score s) (zip (drop (index s) qs) cs),
                                   answers = answers s @ entries (drop (index s) qs) cs\<rparr>\<rparr>)"
  using assms
proof (induction cs arbitrary: w s)
  case Nil
  then show ?case by simp
next
  case (Cons c cs)
  let ?s' = "(record_answer (qs ! index s) c s)\<lparr>index := index s + 1\<rparr>"
  let ?w' = "w\<lparr>session := Some ?s'\<rparr>"
  from Cons.prems have lt: "index s < length qs" and lt1: "index s + 1 < length qs" by simp_all
  have step: "student_panel lib qs c True w = Inr ([], ?w')"
    using panel_submit [OF Cons.prems(1) lt, of lib c] lt1 by simp
  have s': "session ?w' = Some ?s'" by simp
  have len: "index ?s' + length cs < length qs" using Cons.prems(2) by simp
  have dr: "drop (index s) qs = qs ! index s # drop (index s + 1) qs"
    using lt by (simp add: Cons_nth_drop_Suc)
  show ?case
    unfolding take_quiz_Cons step
    using Cons.IH [OF s' len]
    by (simp add: dr tally_Cons entries_Cons record_answer_eq)
qed

lemma take_quiz_last:
  assumes "session w = Some s" and "index s + length cs = length qs" and "cs \<noteq> []"
  shows "take_quiz lib qs cs w =
           (case insert_one lib
                   \<lparr>att_score = tally (score s) (zip (drop (index s) qs) cs),
                    max_score = py_sum lib (map marks qs),
                    details = answers s @ entries (drop (index s) qs) cs\<rparr> of
              Some e \<Rightarrow>
                Inl (e, w\<lparr>session :=
                            Some \<lparr>index = length qs - 1,
                                  score = tally (score s) (zip (drop (index s) qs) cs),
                                  answers = answers s @ entries (drop (index s) qs) cs\<rparr>\<rparr>)
            | None \<Rightarrow>
                Inr \<lparr>session = Some fresh,
                     attempts = attempts w @
                       [\<lparr>att_score = tally (score s) (zip (drop (index s) qs) cs),
                         max_score = py_sum lib (map marks qs),
                         details = answers s @ entries (drop (index s) qs) cs\<rparr>]\<rparr>)"
  using assms
proof (induction cs arbitrary: w s)
  case Nil
  then show ?case by simp
next
  case (Cons c cs)
  from Cons.prems have lt: "index s < length qs" by simp
  have dr: "drop (index s) qs = qs ! index s # drop (index s + 1) qs"
    using lt by (simp add: Cons_nth_drop_Suc)
  show ?case
  proof (cases "cs = []")
    case True
    with Cons.prems have last: "\<not> index s + 1 < length qs" and ix: "length qs - 1 = index s"
      by simp_all
    have run: "take_quiz lib qs (c # cs) w =
           (case insert_one lib
                   \<lparr>att_score = tally (score s) (zip (drop (index s) qs) (c # cs)),
                    max_score = py_sum lib (map marks qs),
                    details = answers s @ entries (drop (index s) qs) (c # cs)\<rparr> of
              Some e \<Rightarrow>
                Inl (e, w\<lparr>session :=
                            Some \<lparr>index = index s,
                                  score = tally (score s) (zip (drop (index s) qs) (c # cs)),
                                  answers = answers s @ entries (drop (index s) qs) (c # cs)\<rparr>\<rparr>)
            | None \<Rightarrow>
                Inr \<lparr>session = Some fresh,
                     attempts = attempts w @
                       [\<lparr>att_score = tally (score s) (zip (drop (index s) qs) (c # cs)),
                         max_score = py_sum lib (map marks qs),
                         details = answers s @ entries (drop (index s) qs) (c # cs)\<rparr>]\<rparr>)"
      unfolding take_quiz_Cons
      using panel_submit [OF Cons.prems(1) lt, of lib c] last True
      by (simp add: dr tally_Cons entries_Cons record_answer_eq split: option.split)
    show ?thesis unfolding ix by (rule run)
  next
    case False
    let ?s' = "(record_answer (qs ! index s) c s)\<lparr>index := index s + 1\<rparr>"
    let ?w' = "w\<lparr>session := Some ?s'\<rparr>"
    from False Cons.prems have lt1: "index s + 1 < length qs" by (cases cs) simp_all
    have step: "student_panel lib qs c True w = Inr ([], ?w')"
      using panel_submit [OF Cons.prems(1) lt, of lib c] lt1 by simp
    have s': "session ?w' = Some ?s'" by simp
    have len: "index ?s' + length cs = length qs" using Cons.prems(2) by simp
    show ?thesis
      unfolding take_quiz_Cons step
      using Cons.IH [OF s' len False]
      by (simp add: dr tally_Cons entries_Cons record_answer_eq split: option.split)
  qed
qed

subsection \<open>The inline quiz\<close>

lemma verdicts_Nil [simp]: "verdicts qs [] = []"
  by (simp add: verdicts_def)

lemma verdicts_Cons: "verdicts (q # qs) (c # cs) = verdict q c # verdicts qs cs"
  by (simp add: verdicts_def)

lemma length_verdicts: "length (verdicts qs cs) = min (length qs) (length cs)"
  by (simp add: verdicts_def)

lemma app_submit:
  assumes "\<not> finished s" and "current s < length qs"
  shows "quiz_app qs Submit_answer (Some c) s =
           Inr ([verdict (qs ! current s) c],
                if current s + 1 < length qs
                then \<lparr>current = current s + 1,
                      points = points s + (if c = answer (qs ! current s) then marks (qs ! current s) else 0),
                      finished = False\<rparr>
                else \<lparr>current = current s,
                      points = points s + (if c = answer (qs ! current s) then marks (qs ! current s) else 0),
                      finished = True\<rparr>)"
  using assms by (simp add: quiz_app_def Let_def verdict_def)

lemma app_idle:
  assumes "finished s" and "b \<noteq> Restart_quiz"
  shows "quiz_app qs b c s = Inr ([Quiz_finished_score (points s) (sum_list (map marks qs))], s)"
  using assms by (simp add: quiz_app_def)

lemma press_all_advance:
  assumes "\<not> finished s" and "current s + length cs < length qs"
  shows "press_all qs (map Some cs) s =
           Inr (verdicts (drop (current s) qs) cs,
                \<lparr>current = current s + length cs,
                 points = tally (points s) (zip (drop (current s) qs) (map Some cs)),
                 finished = False\<rparr>)"
  using assms
proof (induction cs arbitrary: s)
  case Nil
  then show ?case by simp
next
  case (Cons c cs)
  let ?q = "qs ! current s"
  let ?s' = "\<lparr>current = current s + 1,
              points = points s + (if c = answer ?q then marks ?q else 0),
              finished = False\<rparr>"
  from Cons.prems have lt: "current s < length qs" and lt1: "current s + 1 < length qs"
    by simp_all
  have step: "quiz_app qs Submit_answer (Some c) s = Inr ([verdict ?q c], ?s')"
    using app_submit [OF Cons.prems(1) lt, of c] lt1 by simp
  have nf: "\<not> finished ?s'" by simp
  have len: "current ?s' + length cs < length qs" using Cons.prems(2) by simp
  have dr: "drop (current s) qs = ?q # drop (current s + 1) qs"
    using lt by (simp add: Cons_nth_drop_Suc)
  show ?case
    using Cons.IH [OF nf len]
    by (simp add: step dr tally_Cons verdicts_Cons)
qed

lemma press_all_complete:
  assumes "\<not> finished s" and "current s + length cs = length qs" and "cs \<noteq> []"
  shows "press_all qs (map Some cs) s =
           Inr (verdicts (drop (current s) qs) cs,
                \<lparr>current = length qs - 1,
                 points = tally (points s) (zip (drop (current s) qs) (map Some cs)),
                 finished = True\<rparr>)"
  using assms
proof (induction cs arbitrary: s)
  case Nil
  then show ?case by simp
next
  case (Cons c cs)
  let ?q = "qs ! current s"
  from Cons.prems have lt: "current s < length qs" by simp
  have dr: "drop (current s) qs = ?q # drop (current s + 1) qs"
    using lt by (simp add: Cons_nth_drop_Suc)
  show ?case
  proof (cases "cs = []")
    case True
    with Cons.prems have last: "\<not> current s + 1 < length qs" and cur: "length qs - 1 = current s"
      by simp_all
    have run: "press_all qs (map Some (c # cs)) s =
            Inr (verdicts (drop (current s) qs) (c # cs),
                 \<lparr>current = current s,
                  points = tally (points s) (zip (drop (current s) qs) (map Some (c # cs))),
                  finished = True\<rparr>)"
      using app_submit [OF Cons.prems(1) lt, of c] last True
      by (simp add: dr tally_Cons verdicts_Cons)
    show ?thesis unfolding cur by (rule run)
  next
    case False
    let ?s' = "\<lparr>current = current s + 1,
                points = points s + (if c = answer ?q then marks ?q else 0),
                finished = False\<rparr>"
    from False Cons.prems have lt1: "current s + 1 < length qs" by (cases cs) simp_all
    have step: "quiz_app qs Submit_answer (Some c) s = Inr ([verdict ?q c], ?s')"
      using app_submit [OF Cons.prems(1) lt, of c] lt1 by simp
    have nf: "\<not> finished ?s'" by simp
    have len: "current ?s' + length cs = length qs" using Cons.prems(2) by simp
    show ?thesis
      using Cons.IH [OF nf len False]
      by (simp add: step dr tally_Cons verdicts_Cons)
  qed
qed

subsection \<open>Whole quizzes\<close>

lemma take_quiz_opened_advance:
  assumes "length ds < length qs"
  shows "take_quiz lib qs ds opened =
           Inr \<lparr>session = Some \<lparr>index = length ds, score = tally 0 (zip qs ds),
                                 answers = entries qs ds\<rparr>,
                attempts = []\<rparr>"
proof -
  have s: "session (opened :: 'a world) = Some fresh" by (simp add: opened_def)
  have l: "index (fresh :: 'a quiz_vars) + length ds < length qs" using assms by (simp add: fresh_def)
  show ?thesis
    using take_quiz_advance [OF s l, of lib] by (simp add: fresh_def opened_def)
qed

lemma take_quiz_opened_last:
  assumes "qs \<noteq> []" and "length ds = length qs"
  shows "take_quiz lib qs ds opened =
           (case insert_one lib
                   \<lparr>att_score = tally 0 (zip qs ds),
                    max_score = py_sum lib (map marks qs),
                    details = entries qs ds\<rparr> of
              Some e \<Rightarrow>
                Inl (e, \<lparr>session = Some \<lparr>index = length qs - 1,
                                         score = tally 0 (zip qs ds),
                                         answers = entries qs ds\<rparr>,
                        attempts = []\<rparr>)
            | None \<Rightarrow>
                Inr \<lparr>session = Some fresh,
                     attempts = [\<lparr>att_score = tally 0 (zip qs ds),
                                  max_score = py_sum lib (map marks qs),
                                  details = entries qs ds\<rparr>]\<rparr>)"
proof -
  have s: "session (opened :: 'a world) = Some fresh" by (simp add: opened_def)
  have l: "index (fresh :: 'a quiz_vars) + length ds = length qs" using assms by (simp add: fresh_def)
  have n: "ds \<noteq> []" using assms by auto
  show ?thesis
    using take_quiz_last [OF s l n, of lib]
    by (simp add: fresh_def opened_def split: option.split)
qed

lemma press_all_initial_advance:
  assumes "length cs < length qs"
  shows "press_all qs (map Some cs) initial =
           Inr (verdicts qs cs,
                \<lparr>current = length cs, points = tally 0 (zip qs (map Some cs)), finished = False\<rparr>)"
proof -
  have f: "\<not> finished initial" by (simp add: initial_def)
  have l: "current initial + length cs < length qs" using assms by (simp add: initial_def)
  show ?thesis
    using press_all_advance [OF f l] by (simp add: initial_def)
qed

lemma press_all_initial_complete:
  assumes "qs \<noteq> []" and "length cs = length qs"
  shows "press_all qs (map Some cs) initial =
           Inr (verdicts qs cs,
                \<lparr>current = length qs - 1, points = tally 0 (zip qs (map Some cs)), finished = True\<rparr>)"
proof -
  have f: "\<not> finished initial" by (simp add: initial_def)
  have l: "current initial + length cs = length qs" using assms by (simp add: initial_def)
  have n: "cs \<noteq> []" using assms by auto
  show ?thesis
    using press_all_complete [OF f l n] by (simp add: initial_def)
qed



lemma is_correct_entries:
  "map is_correct (entries qs (map Some cs)) = map (\<lambda>m. m = Correct) (verdicts qs cs)"
proof (induction qs arbitrary: cs)
  case Nil
  then show ?case by (simp add: entries_def verdicts_def)
next
  case (Cons q qs)
  then show ?case
    by (cases cs) (simp_all add: entries_Cons verdicts_Cons entry_for_def verdict_def)
qed

lemma entries_questions:
  "length ds = length qs \<Longrightarrow>
     map entry_question (entries qs ds) = map question_text qs
     \<and> map correct (entries qs ds) = map answer qs"
proof (induction qs arbitrary: ds)
  case Nil
  then show ?case by (simp add: entries_def)
next
  case (Cons q qs)
  then show ?case
    by (cases ds) (simp_all add: entries_Cons entry_for_def)
qed

subsection \<open>The invariant of the log\<close>

lemma zip_snoc:
  "length es < length qs \<Longrightarrow> zip qs (es @ [e]) = zip qs es @ [(qs ! length es, e)]"
proof (induction qs arbitrary: es)
  case Nil
  then show ?case by simp
next
  case (Cons q qs)
  then show ?case by (cases es) simp_all
qed

lemma awarded_snoc:
  "length es < length qs \<Longrightarrow>
     awarded qs (es @ [e]) =
       (if is_correct e then awarded qs es + marks (qs ! length es) else awarded qs es)"
  by (simp add: awarded_def zip_snoc)

lemma awarded_Nil [simp]: "awarded qs [] = 0"
  by (simp add: awarded_def)

lemma panel_keeps_log:
  assumes "log_ok qs w" and "student_panel lib qs c True w = Inr (ns, w')"
  shows "log_ok qs w'"
proof -
  from assms(1) obtain s where s: "session w = Some s" and lt: "index s < length qs"
    and len: "length (answers s) = index s" and sc: "score s = awarded qs (answers s)"
    by (auto simp: log_ok_def split: option.splits)
  have len': "length (answers s) < length qs" using len lt by simp
  from lt have ne: "qs \<noteq> []" by auto
  show ?thesis
  proof (cases "index s + 1 < length qs")
    case True
    with assms(2) panel_submit [OF s lt, of lib c]
    have "w' = w\<lparr>session := Some ((record_answer (qs ! index s) c s)\<lparr>index := index s + 1\<rparr>)\<rparr>"
      by simp
    then show ?thesis
      using True awarded_snoc [OF len', of "entry_for (qs ! index s) c"] len sc
      by (simp add: log_ok_def record_answer_eq entry_for_def)
  next
    case False
    with assms(2) panel_submit [OF s lt, of lib c]
    have "session w' = Some fresh"
      by (auto split: option.splits)
    then show ?thesis using ne by (simp add: log_ok_def fresh_def)
  qed
qed

lemma take_quiz_keeps_log:
  assumes "log_ok qs w" and "take_quiz lib qs ds w = Inr w'"
  shows "log_ok qs w'"
  using assms
proof (induction ds arbitrary: w)
  case Nil
  then show ?case by simp
next
  case (Cons d ds)
  from Cons.prems(2) obtain ns w1 where step: "student_panel lib qs d True w = Inr (ns, w1)"
    and rest: "take_quiz lib qs ds w1 = Inr w'"
    by (auto simp: take_quiz_Cons split: sum.splits)
  from panel_keeps_log [OF Cons.prems(1) step] have "log_ok qs w1" .
  from Cons.IH [OF this rest] show ?case .
qed

lemma panel_returns:
  assumes "log_ok qs w" and "\<forall>a. insert_one lib a = None"
  shows "\<exists>ns w'. student_panel lib qs c True w = Inr (ns, w')"
proof -
  from assms(1) obtain s where s: "session w = Some s" and lt: "index s < length qs"
    by (auto simp: log_ok_def split: option.splits)
  from panel_submit [OF s lt, of lib c] assms(2) show ?thesis by simp
qed

lemma take_quiz_returns:
  assumes "log_ok qs w" and "\<forall>a. insert_one lib a = None"
  shows "\<exists>w'. take_quiz lib qs ds w = Inr w'"
  using assms(1)
proof (induction ds arbitrary: w)
  case Nil
  then show ?case by simp
next
  case (Cons d ds)
  from panel_returns [OF Cons.prems assms(2), of d]
  obtain ns w1 where step: "student_panel lib qs d True w = Inr (ns, w1)" by blast
  from panel_keeps_log [OF Cons.prems step] have "log_ok qs w1" .
  from Cons.IH [OF this] show ?case by (simp add: take_quiz_Cons step)
qed

lemma panel_keeps_length:
  assumes "session w = Some s" and "length (answers s) = index s"
    and "student_panel lib rs c True w = Inr (ns, w')"
  shows "\<exists>s'. session w' = Some s' \<and> length (answers s') = index s'"
proof (cases "rs = []")
  case True
  with assms show ?thesis by (simp add: student_panel_def)
next
  case False
  show ?thesis
  proof (cases "index s < length rs")
    case True
    from panel_submit [OF assms(1) True, of lib c] assms(2,3) show ?thesis
      by (auto simp: record_answer_eq fresh_def split: if_splits option.splits)
  next
    case False
    with assms(1,3) \<open>rs \<noteq> []\<close> show ?thesis
      by (simp add: student_panel_def)
  qed
qed

lemma submit_all_keeps_length:
  assumes "session w = Some s" and "length (answers s) = index s"
    and "submit_all runs w = Inr w'"
  shows "\<exists>s'. session w' = Some s' \<and> length (answers s') = index s'"
  using assms
proof (induction runs arbitrary: w s)
  case Nil
  then show ?case by simp
next
  case (Cons r runs)
  obtain lib rs c where r: "r = (lib, rs, c)" by (cases r)
  from Cons.prems(3) r obtain ns w1 where step: "student_panel lib rs c True w = Inr (ns, w1)"
    and rest: "submit_all runs w1 = Inr w'"
    by (auto split: sum.splits)
  from panel_keeps_length [OF Cons.prems(1,2) step]
  obtain s1 where "session w1 = Some s1" and "length (answers s1) = index s1" by blast
  from Cons.IH [OF this rest] show ?case .
qed

subsection \<open>Adding a question\<close>

lemma add_question_click_checked:
  assumes "add_question_click course qtext raw ans mk = Question_added k q"
  shows "answer q \<in> set (options q)"
  using assms
  by (auto simp: add_question_click_def Let_def split: if_splits)

lemma parsed_example:
  "filter (\<lambda>p. p \<noteq> []) (map strip (split_comma (''3, 4 ,5,'' @ [CHR 0xA0]))) = [''3'', ''4'', ''5'']"
  by (simp add: strip_def isspace_def)

section \<open>The claims\<close>

text \<open>
  C1. Both scripts count a submitted option as correct exactly when it is equal, as a
  string, to the question's answer; a correct option adds the question's marks to the
  score and any other leaves the score as it is. In \<^verbatim>\<open>q/q.py\<close> the verdict is the logged
  \<open>is_correct\<close>; the run on the last question then hands score and log to
  \<^verbatim>\<open>save_attempt\<close>, and what becomes of them depends on whether that raises. In
  \<^verbatim>\<open>quiz_app.py\<close> the verdict is the message shown.
\<close>

theorem scoring_rule:
  assumes "session w = Some s" and "index s < length qs"
    and "\<not> finished t" and "current t < length ps"
  shows "(let q = qs ! index s;
              ok = (choice = Some (answer q));
              s2 = \<lparr>index = index s,
                    score = (if ok then score s + marks q else score s),
                    answers = answers s @
                      [\<lparr>entry_question = question_text q, selected = choice,
                        correct = answer q, is_correct = ok\<rparr>]\<rparr>;
              a = \<lparr>att_score = score s2, max_score = py_sum lib (map marks qs),
                   details = answers s2\<rparr>
          in student_panel lib qs choice True w =
               (if index s + 1 < length qs
                then Inr ([], w\<lparr>session := Some (s2\<lparr>index := index s + 1\<rparr>)\<rparr>)
                else (case insert_one lib a of
                        None \<Rightarrow>
                          Inr ([Quiz_finished (score s2)],
                               \<lparr>session = Some fresh, attempts = attempts w @ [a]\<rparr>)
                      | Some err \<Rightarrow> Inl (err, w\<lparr>session := Some s2\<rparr>))))
       \<and> (let p = ps ! current t;
              ok = (c = answer p);
              pts = (if ok then marks p else 0)
          in quiz_app ps Submit_answer (Some c) t =
               Inr ([if ok then Correct else Wrong (answer p)],
                    if current t + 1 < length ps
                    then \<lparr>current = current t + 1, points = points t + pts, finished = False\<rparr>
                    else \<lparr>current = current t, points = points t + pts, finished = True\<rparr>))"
  using panel_submit [OF assms(1,2), of lib choice] app_submit [OF assms(3,4), of c]
  by (simp add: Let_def record_answer_eq entry_for_def verdict_def split: option.split)

theorem scoring_rule_witness:
  "session \<lparr>session =
             Some \<lparr>index = 1, score = 1,
                   answers =
                     [\<lparr>entry_question = ''Which keyword is used to define a function in Python?'',
                       selected = Some ''def'', correct = ''def'', is_correct = True\<rparr>]\<rparr>,
           attempts = []\<rparr> =
     Some \<lparr>index = 1, score = 1,
           answers =
             [\<lparr>entry_question = ''Which keyword is used to define a function in Python?'',
               selected = Some ''def'', correct = ''def'', is_correct = True\<rparr>]\<rparr>
   \<and> index \<lparr>index = 1, score = 1 :: int,
             answers =
               [\<lparr>entry_question = ''Which keyword is used to define a function in Python?'',
                 selected = Some ''def'', correct = ''def'', is_correct = True\<rparr>]\<rparr>
       < length QUESTIONS
   \<and> \<not> finished initial \<and> current initial < length QUESTIONS
   \<and> student_panel int_library QUESTIONS (Some ''list'') True
       \<lparr>session =
          Some \<lparr>index = 1, score = 1,
                answers =
                  [\<lparr>entry_question = ''Which keyword is used to define a function in Python?'',
                    selected = Some ''def'', correct = ''def'', is_correct = True\<rparr>]\<rparr>,
        attempts = []\<rparr> =
       Inr ([Quiz_finished 1],
            \<lparr>session = Some \<lparr>index = 0, score = 0, answers = []\<rparr>,
             attempts =
               [\<lparr>att_score = 1, max_score = 2,
                 details =
                   [\<lparr>entry_question = ''Which keyword is used to define a function in Python?'',
                     selected = Some ''def'', correct = ''def'', is_correct = True\<rparr>,
                    \<lparr>entry_question = ''Which data type is immutable?'',
                     selected = Some ''list'', correct = ''tuple'', is_correct = False\<rparr>]\<rparr>]\<rparr>)
   \<and> quiz_app QUESTIONS Submit_answer (Some ''def'') initial =
        Inr ([Correct], \<lparr>current = 1, points = 1, finished = False\<rparr>)"
proof -
  let ?s = "\<lparr>index = 1, score = 1 :: int,
             answers =
               [\<lparr>entry_question = ''Which keyword is used to define a function in Python?'',
                 selected = Some ''def'', correct = ''def'', is_correct = True\<rparr>]\<rparr>"
  let ?w = "\<lparr>session = Some ?s, attempts = []\<rparr>"
  have h1: "session ?w = Some ?s" by simp
  have h2: "index ?s < length QUESTIONS" by (simp add: QUESTIONS_def)
  have h3: "\<not> finished initial" by (simp add: initial_def)
  have h4: "current initial < length QUESTIONS" by (simp add: initial_def QUESTIONS_def)
  show ?thesis
    using h1 h2 h3 h4
      scoring_rule [OF h1 h2 h3 h4, of "Some ''list''" int_library "''def''"]
    by (simp add: Let_def QUESTIONS_def fresh_def initial_def int_library_def int64_def)
qed

text \<open>
  C2. A quiz over \<open>N\<close> questions, \<open>N \<ge> 1\<close>, is complete after exactly \<open>N\<close>
  submitted answers and not before. As the spec has it the position is then \<open>N\<close>; the
  scripts never move the position past the last question. \<^verbatim>\<open>quiz_app.py\<close> sets
  \<^verbatim>\<open>finished\<close> and leaves \<^verbatim>\<open>current\<close> at \<open>N - 1\<close>; \<^verbatim>\<open>q/q.py\<close> saves the attempt and
  sets \<^verbatim>\<open>index\<close> back to 0. Here are the two scripts on the two questions of
  \<^verbatim>\<open>quiz_app.py\<close>.
\<close>

theorem position_at_completion_counterexample:
  "length QUESTIONS = 2
   \<and> press_all QUESTIONS [Some ''def'', Some ''tuple''] initial =
       Inr ([Correct, Correct], \<lparr>current = 1, points = 2, finished = True\<rparr>)
   \<and> take_quiz int_library QUESTIONS [Some ''def'', Some ''tuple''] opened =
       Inr \<lparr>session = Some \<lparr>index = 0, score = 0, answers = []\<rparr>,
            attempts =
              [\<lparr>att_score = 2, max_score = 2,
                details =
                  [\<lparr>entry_question = ''Which keyword is used to define a function in Python?'',
                    selected = Some ''def'', correct = ''def'', is_correct = True\<rparr>,
                   \<lparr>entry_question = ''Which data type is immutable?'',
                    selected = Some ''tuple'', correct = ''tuple'', is_correct = True\<rparr>]\<rparr>]\<rparr>"
  by (simp add: QUESTIONS_def initial_def opened_def fresh_def take_quiz_def int_library_def
      int64_def student_panel_def record_answer_def quiz_app_def Let_def)

text \<open>
  C2, as the scripts have it. For a non-empty question list of length \<open>N\<close>: after
  \<open>k < N\<close> answers the inline quiz is not finished and stands at question \<open>k\<close>, and
  after all \<open>N\<close> it is finished with \<^verbatim>\<open>current\<close> at \<open>N - 1\<close>; after \<open>k < N\<close> answers
  the panel has saved no attempt and its index is \<open>k\<close>, and the \<open>N\<close>-th answer hands
  an attempt with \<open>N\<close> log entries to \<^verbatim>\<open>save_attempt\<close>. If that returns, exactly this
  attempt is saved and the index is back at 0; if it raises, nothing is saved and the
  index stays at \<open>N - 1\<close> with the \<open>N\<close> entries logged.
\<close>

theorem completes_on_last_answer:
  assumes "ps \<noteq> []" and "length cs = length ps"
    and "qs \<noteq> []" and "length ds = length qs"
  shows "(\<forall>k<length ps. \<exists>ms s. press_all ps (map Some (take k cs)) initial = Inr (ms, s)
                              \<and> \<not> finished s \<and> current s = k)
       \<and> (\<exists>ms s. press_all ps (map Some cs) initial = Inr (ms, s)
                  \<and> finished s \<and> current s = length ps - 1)
       \<and> (\<forall>k<length qs. \<exists>s. take_quiz lib qs (take k ds) opened =
                                  Inr \<lparr>session = Some s, attempts = []\<rparr> \<and> index s = k)
       \<and> (\<exists>a. length (details a) = length qs
              \<and> take_quiz lib qs ds opened =
                  (case insert_one lib a of
                     None \<Rightarrow>
                       Inr \<lparr>session = Some \<lparr>index = 0, score = 0, answers = []\<rparr>,
                            attempts = [a]\<rparr>
                   | Some e \<Rightarrow>
                       Inl (e, \<lparr>session = Some \<lparr>index = length qs - 1, score = att_score a,
                                                answers = details a\<rparr>,
                               attempts = []\<rparr>)))"
proof (intro conjI allI impI)
  fix k assume k: "k < length ps"
  then have "length (take k cs) < length ps" using assms(2) by simp
  from press_all_initial_advance [OF this] k assms(2)
  show "\<exists>ms s. press_all ps (map Some (take k cs)) initial = Inr (ms, s)
                \<and> \<not> finished s \<and> current s = k"
    by simp
next
  from press_all_initial_complete [OF assms(1,2)]
  show "\<exists>ms s. press_all ps (map Some cs) initial = Inr (ms, s)
                \<and> finished s \<and> current s = length ps - 1"
    by simp
next
  fix k assume k: "k < length qs"
  then have "length (take k ds) < length qs" using assms(4) by simp
  from take_quiz_opened_advance [OF this, of lib] k assms(4)
  show "\<exists>s. take_quiz lib qs (take k ds) opened = Inr \<lparr>session = Some s, attempts = []\<rparr>
             \<and> index s = k"
    by simp
next
  let ?a = "\<lparr>att_score = tally 0 (zip qs ds), max_score = py_sum lib (map marks qs),
             details = entries qs ds\<rparr>"
  have len: "length (details ?a) = length qs"
    using assms(4) by (simp add: length_entries)
  have run: "take_quiz lib qs ds opened =
                  (case insert_one lib ?a of
                     None \<Rightarrow>
                       Inr \<lparr>session = Some \<lparr>index = 0, score = 0, answers = []\<rparr>,
                            attempts = [?a]\<rparr>
                   | Some e \<Rightarrow>
                       Inl (e, \<lparr>session = Some \<lparr>index = length qs - 1, score = att_score ?a,
                                                answers = details ?a\<rparr>,
                               attempts = []\<rparr>))"
    using take_quiz_opened_last [OF assms(3,4), of lib]
    by (simp add: fresh_def split: option.split)
  from len run
  show "\<exists>a. length (details a) = length qs
              \<and> take_quiz lib qs ds opened =
                  (case insert_one lib a of
                     None \<Rightarrow>
                       Inr \<lparr>session = Some \<lparr>index = 0, score = 0, answers = []\<rparr>,
                            attempts = [a]\<rparr>
                   | Some e \<Rightarrow>
                       Inl (e, \<lparr>session = Some \<lparr>index = length qs - 1, score = att_score a,
                                                answers = details a\<rparr>,
                               attempts = []\<rparr>))"
    by blast
qed

theorem completes_on_last_answer_witness:
  "QUESTIONS \<noteq> [] \<and> length [''def'', ''list''] = length QUESTIONS
   \<and> length [Some ''def'', Some ''list''] = length QUESTIONS
   \<and> (\<exists>ms s. press_all QUESTIONS (map Some (take 1 [''def'', ''list''])) initial = Inr (ms, s)
               \<and> \<not> finished s \<and> current s = 1)
   \<and> (\<exists>ms s. press_all QUESTIONS (map Some [''def'', ''list'']) initial = Inr (ms, s)
               \<and> finished s \<and> current s = length QUESTIONS - 1)
   \<and> (\<exists>s. take_quiz int_library QUESTIONS (take 1 [Some ''def'', Some ''list'']) opened =
               Inr \<lparr>session = Some s, attempts = []\<rparr> \<and> index s = 1)
   \<and> (\<exists>a. length (details a) = length QUESTIONS
          \<and> take_quiz int_library QUESTIONS [Some ''def'', Some ''list''] opened =
              (case insert_one int_library a of
                 None \<Rightarrow>
                   Inr \<lparr>session = Some \<lparr>index = 0, score = 0, answers = []\<rparr>, attempts = [a]\<rparr>
               | Some e \<Rightarrow>
                   Inl (e, \<lparr>session = Some \<lparr>index = length QUESTIONS - 1, score = att_score a,
                                            answers = details a\<rparr>,
                           attempts = []\<rparr>)))
   \<and> take_quiz int_library QUESTIONS [Some ''def'', Some ''list''] opened =
       Inr \<lparr>session = Some \<lparr>index = 0, score = 0, answers = []\<rparr>,
            attempts =
              [\<lparr>att_score = 1, max_score = 2,
                details =
                  [\<lparr>entry_question = ''Which keyword is used to define a function in Python?'',
                    selected = Some ''def'', correct = ''def'', is_correct = True\<rparr>,
                   \<lparr>entry_question = ''Which data type is immutable?'',
                    selected = Some ''list'', correct = ''tuple'', is_correct = False\<rparr>]\<rparr>]\<rparr>
   \<and> take_quiz read_only_server QUESTIONS [Some ''def'', Some ''list''] opened =
       Inl (OperationFailure,
            \<lparr>session =
               Some \<lparr>index = 1, score = 1,
                     answers =
                       [\<lparr>entry_question = ''Which keyword is used to define a function in Python?'',
                         selected = Some ''def'', correct = ''def'', is_correct = True\<rparr>,
                        \<lparr>entry_question = ''Which data type is immutable?'',
                         selected = Some ''list'', correct = ''tuple'', is_correct = False\<rparr>]\<rparr>,
             attempts = []\<rparr>)"
proof -
  have h1: "QUESTIONS \<noteq> []" by (simp add: QUESTIONS_def)
  have h2: "length [''def'', ''list''] = length QUESTIONS" by (simp add: QUESTIONS_def)
  have h3: "length [Some ''def'', Some ''list''] = length QUESTIONS" by (simp add: QUESTIONS_def)
  have one: "(1::nat) < length QUESTIONS" by (simp add: QUESTIONS_def)
  note t = completes_on_last_answer [OF h1 h2 h1 h3, of int_library]
  from t have a: "\<exists>ms s. press_all QUESTIONS (map Some (take 1 [''def'', ''list''])) initial = Inr (ms, s)
               \<and> \<not> finished s \<and> current s = 1"
    using one by blast
  from t have b: "\<exists>ms s. press_all QUESTIONS (map Some [''def'', ''list'']) initial = Inr (ms, s)
               \<and> finished s \<and> current s = length QUESTIONS - 1"
    by blast
  from t have c: "\<exists>s. take_quiz int_library QUESTIONS (take 1 [Some ''def'', Some ''list'']) opened =
               Inr \<lparr>session = Some s, attempts = []\<rparr> \<and> index s = 1"
    using one by blast
  from t have d: "\<exists>a. length (details a) = length QUESTIONS
          \<and> take_quiz int_library QUESTIONS [Some ''def'', Some ''list''] opened =
              (case insert_one int_library a of
                 None \<Rightarrow>
                   Inr \<lparr>session = Some \<lparr>index = 0, score = 0, answers = []\<rparr>, attempts = [a]\<rparr>
               | Some e \<Rightarrow>
                   Inl (e, \<lparr>session = Some \<lparr>index = length QUESTIONS - 1, score = att_score a,
                                            answers = details a\<rparr>,
                           attempts = []\<rparr>))"
    by blast
  have e: "take_quiz int_library QUESTIONS [Some ''def'', Some ''list''] opened =
       Inr \<lparr>session = Some \<lparr>index = 0, score = 0, answers = []\<rparr>,
            attempts =
              [\<lparr>att_score = 1, max_score = 2,
                details =
                  [\<lparr>entry_question = ''Which keyword is used to define a function in Python?'',
                    selected = Some ''def'', correct = ''def'', is_correct = True\<rparr>,
                   \<lparr>entry_question = ''Which data type is immutable?'',
                    selected = Some ''list'', correct = ''tuple'', is_correct = False\<rparr>]\<rparr>]\<rparr>"
    by (simp add: QUESTIONS_def opened_def fresh_def take_quiz_def int_library_def
        int64_def student_panel_def record_answer_def Let_def)
  have f: "take_quiz read_only_server QUESTIONS [Some ''def'', Some ''list''] opened =
       Inl (OperationFailure,
            \<lparr>session =
               Some \<lparr>index = 1, score = 1,
                     answers =
                       [\<lparr>entry_question = ''Which keyword is used to define a function in Python?'',
                         selected = Some ''def'', correct = ''def'', is_correct = True\<rparr>,
                        \<lparr>entry_question = ''Which data type is immutable?'',
                         selected = Some ''list'', correct = ''tuple'', is_correct = False\<rparr>]\<rparr>,
             attempts = []\<rparr>)"
    by (simp add: QUESTIONS_def opened_def fresh_def take_quiz_def read_only_server_def
        student_panel_def record_answer_def Let_def)
  from h1 h2 h3 a b c d e f show ?thesis by (intro conjI)
qed



text \<open>
  C4. The spec keeps the log as long as the position says, in every state a session
  can reach. In \<^verbatim>\<open>q/q.py\<close> the run on the last question appends to the log and adds to
  the score first, calls \<^verbatim>\<open>save_attempt\<close> next and resets last, so a run in which the
  insert raises leaves one log entry more than the index says: on a bank whose
  integer marks reach \<open>2^63\<close>, and on any bank when the server refuses the write.
\<close>

theorem log_after_failed_save_counterexample:
  "student_panel int_library
     [\<lparr>question_text = ''2+2?'', options = [''3'', ''4''], answer = ''4'',
       marks = 9223372036854775808\<rparr>]
     (Some ''4'') True opened =
     Inl (OverflowError,
          \<lparr>session =
             Some \<lparr>index = 0, score = 9223372036854775808,
                   answers =
                     [\<lparr>entry_question = ''2+2?'', selected = Some ''4'', correct = ''4'',
                       is_correct = True\<rparr>]\<rparr>,
           attempts = []\<rparr>)
   \<and> take_quiz read_only_server QUESTIONS [Some ''def'', Some ''tuple''] opened =
     Inl (OperationFailure,
          \<lparr>session =
             Some \<lparr>index = 1, score = 2,
                   answers =
                     [\<lparr>entry_question = ''Which keyword is used to define a function in Python?'',
                       selected = Some ''def'', correct = ''def'', is_correct = True\<rparr>,
                      \<lparr>entry_question = ''Which data type is immutable?'',
                       selected = Some ''tuple'', correct = ''tuple'', is_correct = True\<rparr>]\<rparr>,
           attempts = []\<rparr>)"
  by (simp add: QUESTIONS_def opened_def fresh_def take_quiz_def int_library_def int64_def
      read_only_server_def student_panel_def record_answer_def Let_def)

text \<open>
  C4, as the scripts have it. Started on a non-empty question list, after any number
  of submitted answers none of which raised, the log has as many entries as the index
  says and the score is what the marks of the questions logged as correct add up to,
  from 0 in the order of the log. The number of answers is arbitrary: past the last
  question the variables are reset and the student goes round again. With a storage
  that accepts every attempt no run raises. The first half needs no fixed list:
  whatever the runs read and meet, a sequence of submissions that raises nothing
  leaves a log as long as the index says.
\<close>

theorem log_matches_position_and_score:
  assumes "qs \<noteq> []"
  shows "(take_quiz lib qs ds opened = Inr w' \<longrightarrow>
            (\<exists>s. session w' = Some s
               \<and> length (answers s) = index s
               \<and> score s =
                   foldl (\<lambda>acc (q, e). if is_correct e then acc + marks q else acc) 0
                     (zip qs (answers s))))
       \<and> ((\<forall>a. insert_one lib a = None) \<longrightarrow> (\<exists>v. take_quiz lib qs ds opened = Inr v))
       \<and> (submit_all runs opened = Inr w'' \<longrightarrow>
            (\<exists>v. session w'' = Some v \<and> length (answers v) = index v))"
proof (intro conjI impI)
  have ok: "log_ok qs opened" using assms by (simp add: log_ok_def opened_def fresh_def)
  {
    assume run: "take_quiz lib qs ds opened = Inr w'"
    from take_quiz_keeps_log [OF ok run] have "log_ok qs w'" .
    then show "\<exists>s. session w' = Some s
               \<and> length (answers s) = index s
               \<and> score s =
                   foldl (\<lambda>acc (q, e). if is_correct e then acc + marks q else acc) 0
                     (zip qs (answers s))"
      by (auto simp: log_ok_def awarded_def split: option.splits)
  next
    assume "\<forall>a. insert_one lib a = None"
    from take_quiz_returns [OF ok this]
    show "\<exists>v. take_quiz lib qs ds opened = Inr v" .
  }
next
  assume run: "submit_all runs opened = Inr w''"
  have s: "session (opened :: 'b world) = Some fresh" by (simp add: opened_def)
  have l: "length (answers (fresh :: 'b quiz_vars)) = index (fresh :: 'b quiz_vars)"
    by (simp add: fresh_def)
  from submit_all_keeps_length [OF s l run]
  show "\<exists>v. session w'' = Some v \<and> length (answers v) = index v" .
qed

theorem log_matches_position_and_score_witness:
  "QUESTIONS \<noteq> []
   \<and> take_quiz \<lparr>py_sum = sum_list, insert_one = (\<lambda>a. None)\<rparr> QUESTIONS
        [Some ''def'', Some ''list'', Some ''lambda''] opened =
       Inr \<lparr>session =
              Some \<lparr>index = 1, score = 0,
                    answers =
                      [\<lparr>entry_question = ''Which keyword is used to define a function in Python?'',
                        selected = Some ''lambda'', correct = ''def'', is_correct = False\<rparr>]\<rparr>,
            attempts =
              [\<lparr>att_score = 1, max_score = 2,
                details =
                  [\<lparr>entry_question = ''Which keyword is used to define a function in Python?'',
                    selected = Some ''def'', correct = ''def'', is_correct = True\<rparr>,
                   \<lparr>entry_question = ''Which data type is immutable?'',
                    selected = Some ''list'', correct = ''tuple'', is_correct = False\<rparr>]\<rparr>]\<rparr>
   \<and> (\<exists>s. session
              \<lparr>session =
                 Some \<lparr>index = 1, score = 0,
                       answers =
                         [\<lparr>entry_question = ''Which keyword is used to define a function in Python?'',
                           selected = Some ''lambda'', correct = ''def'', is_correct = False\<rparr>]\<rparr>,
               attempts =
                 [\<lparr>att_score = 1, max_score = 2,
                   details =
                     [\<lparr>entry_question = ''Which keyword is used to define a function in Python?'',
                       selected = Some ''def'', correct = ''def'', is_correct = True\<rparr>,
                      \<lparr>entry_question = ''Which data type is immutable?'',
                       selected = Some ''list'', correct = ''tuple'', is_correct = False\<rparr>]\<rparr>]\<rparr> =
              Some s
          \<and> length (answers s) = index s
          \<and> score s =
              foldl (\<lambda>acc (q, e). if is_correct e then acc + marks q else acc) 0
                (zip QUESTIONS (answers s)))
   \<and> (\<forall>a. insert_one \<lparr>py_sum = sum_list, insert_one = (\<lambda>a. None)\<rparr> (a :: int attempt) = None)
   \<and> (\<exists>v. take_quiz \<lparr>py_sum = sum_list, insert_one = (\<lambda>a. None)\<rparr> QUESTIONS
              [Some ''def'', Some ''list'', Some ''lambda''] opened = Inr v)
   \<and> submit_all
        [(int_library, QUESTIONS, Some ''def''),
         (read_only_server,
          QUESTIONS @ [\<lparr>question_text = ''2+2?'', options = [''3'', ''4''],
                         answer = ''4'', marks = 1\<rparr>], Some ''list'')]
        opened =
       Inr \<lparr>session =
              Some \<lparr>index = 2, score = 1,
                    answers =
                      [\<lparr>entry_question = ''Which keyword is used to define a function in Python?'',
                        selected = Some ''def'', correct = ''def'', is_correct = True\<rparr>,
                       \<lparr>entry_question = ''Which data type is immutable?'',
                        selected = Some ''list'', correct = ''tuple'', is_correct = False\<rparr>]\<rparr>,
            attempts = []\<rparr>
   \<and> (\<exists>v. session
              \<lparr>session =
                 Some \<lparr>index = 2, score = 1 :: int,
                       answers =
                         [\<lparr>entry_question = ''Which keyword is used to define a function in Python?'',
                           selected = Some ''def'', correct = ''def'', is_correct = True\<rparr>,
                          \<lparr>entry_question = ''Which data type is immutable?'',
                           selected = Some ''list'', correct = ''tuple'', is_correct = False\<rparr>]\<rparr>,
               attempts = []\<rparr> = Some v
          \<and> length (answers v) = index v)"
proof -
  let ?lib = "\<lparr>py_sum = sum_list, insert_one = (\<lambda>a :: int attempt. None :: py_error option)\<rparr>"
  let ?ds = "[Some ''def'', Some ''list'', Some ''lambda'']"
  let ?w = "\<lparr>session =
              Some \<lparr>index = 1, score = 0 :: int,
                    answers =
                      [\<lparr>entry_question = ''Which keyword is used to define a function in Python?'',
                        selected = Some ''lambda'', correct = ''def'', is_correct = False\<rparr>]\<rparr>,
            attempts =
              [\<lparr>att_score = 1, max_score = 2,
                details =
                  [\<lparr>entry_question = ''Which keyword is used to define a function in Python?'',
                    selected = Some ''def'', correct = ''def'', is_correct = True\<rparr>,
                   \<lparr>entry_question = ''Which data type is immutable?'',
                    selected = Some ''list'', correct = ''tuple'', is_correct = False\<rparr>]\<rparr>]\<rparr>"
  let ?runs = "[(int_library, QUESTIONS, Some ''def''),
         (read_only_server,
          QUESTIONS @ [\<lparr>question_text = ''2+2?'', options = [''3'', ''4''],
                         answer = ''4'', marks = 1\<rparr>], Some ''list'')]"
  let ?w2 = "\<lparr>session =
              Some \<lparr>index = 2, score = 1 :: int,
                    answers =
                      [\<lparr>entry_question = ''Which keyword is used to define a function in Python?'',
                        selected = Some ''def'', correct = ''def'', is_correct = True\<rparr>,
                       \<lparr>entry_question = ''Which data type is immutable?'',
                        selected = Some ''list'', correct = ''tuple'', is_correct = False\<rparr>]\<rparr>,
            attempts = []\<rparr>"
  have h: "QUESTIONS \<noteq> []" by (simp add: QUESTIONS_def)
  have run: "take_quiz ?lib QUESTIONS ?ds opened = Inr ?w"
    by (simp add: QUESTIONS_def opened_def fresh_def take_quiz_def
        student_panel_def record_answer_def Let_def)
  have acc: "\<forall>a. insert_one ?lib a = None" by simp
  have run2: "submit_all ?runs opened = Inr ?w2"
    by (simp add: QUESTIONS_def opened_def fresh_def student_panel_def record_answer_def Let_def)
  note t = log_matches_position_and_score [OF h, of ?lib ?ds ?w ?runs ?w2]
  from t run have a: "\<exists>s. session ?w = Some s
          \<and> length (answers s) = index s
          \<and> score s =
              foldl (\<lambda>acc (q, e). if is_correct e then acc + marks q else acc) 0
                (zip QUESTIONS (answers s))"
    by blast
  from t acc have b: "\<exists>v. take_quiz ?lib QUESTIONS ?ds opened = Inr v" by blast
  from t run2 have c: "\<exists>v. session ?w2 = Some v \<and> length (answers v) = index v" by blast
  from h run a acc b run2 c show ?thesis by (intro conjI)
qed

text \<open>
  C5. The spec lets a submission to a completed session fail and change nothing. The
  scripts have no such failure. In \<^verbatim>\<open>q/q.py\<close> the run that completes the quiz saves
  the attempt and resets the three session variables, and a further submission is
  the first answer of a new attempt. Here is such a further submission: it succeeds
  and changes the session.
\<close>

theorem submit_after_completion_counterexample:
  "take_quiz int_library QUESTIONS [Some ''def'', Some ''list''] opened =
     Inr \<lparr>session = Some \<lparr>index = 0, score = 0, answers = []\<rparr>,
          attempts =
            [\<lparr>att_score = 1, max_score = 2,
              details =
                [\<lparr>entry_question = ''Which keyword is used to define a function in Python?'',
                  selected = Some ''def'', correct = ''def'', is_correct = True\<rparr>,
                 \<lparr>entry_question = ''Which data type is immutable?'',
                  selected = Some ''list'', correct = ''tuple'', is_correct = False\<rparr>]\<rparr>]\<rparr>
   \<and> student_panel int_library QUESTIONS (Some ''def'') True
       \<lparr>session = Some \<lparr>index = 0, score = 0, answers = []\<rparr>,
        attempts =
          [\<lparr>att_score = 1, max_score = 2,
            details =
              [\<lparr>entry_question = ''Which keyword is used to define a function in Python?'',
                selected = Some ''def'', correct = ''def'', is_correct = True\<rparr>,
               \<lparr>entry_question = ''Which data type is immutable?'',
                selected = Some ''list'', correct = ''tuple'', is_correct = False\<rparr>]\<rparr>]\<rparr> =
     Inr ([],
          \<lparr>session =
             Some \<lparr>index = 1, score = 1,
                   answers =
                     [\<lparr>entry_question = ''Which keyword is used to define a function in Python?'',
                       selected = Some ''def'', correct = ''def'', is_correct = True\<rparr>]\<rparr>,
           attempts =
             [\<lparr>att_score = 1, max_score = 2,
               details =
                 [\<lparr>entry_question = ''Which keyword is used to define a function in Python?'',
                   selected = Some ''def'', correct = ''def'', is_correct = True\<rparr>,
                  \<lparr>entry_question = ''Which data type is immutable?'',
                   selected = Some ''list'', correct = ''tuple'', is_correct = False\<rparr>]\<rparr>]\<rparr>)"
  by (simp add: QUESTIONS_def opened_def fresh_def take_quiz_def int_library_def int64_def
      student_panel_def record_answer_def Let_def)

text \<open>
  C5, as the scripts have it. The run of \<^verbatim>\<open>q/q.py\<close> that answers the last question
  hands the attempt to \<^verbatim>\<open>save_attempt\<close>. If that returns, the attempt is saved and the
  variables are index 0, score 0 and an empty log; a further submission is then
  handled exactly like the first submission of a student with no session variables
  yet, and with more than one question it is scored against the first question. If
  the insert raises, the run raises with score and log as they were handed over. A
  run of \<^verbatim>\<open>quiz_app.py\<close> on a finished quiz, whatever is clicked but "Restart quiz",
  shows the score and leaves the state as it is.
\<close>

theorem completion_resets_the_session:
  assumes "session w = Some s" and "index s + 1 = length qs"
    and "finished t" and "b \<noteq> Restart_quiz"
  shows "(let s2 = record_answer (qs ! index s) c s;
              a = \<lparr>att_score = score s2, max_score = py_sum lib (map marks qs),
                   details = answers s2\<rparr>;
              w1 = \<lparr>session = Some \<lparr>index = 0, score = 0, answers = []\<rparr>,
                    attempts = attempts w @ [a]\<rparr>
          in student_panel lib qs c True w =
               (case insert_one lib a of
                  None \<Rightarrow> Inr ([Quiz_finished (score s2)], w1)
                | Some e \<Rightarrow> Inl (e, w\<lparr>session := Some s2\<rparr>))
           \<and> student_panel lib qs c' True w1 =
               student_panel lib qs c' True (w1\<lparr>session := None\<rparr>)
           \<and> (1 < length qs \<longrightarrow>
                student_panel lib qs c' True w1 =
                  Inr ([], w1\<lparr>session :=
                               Some \<lparr>index = 1,
                                     score = (if c' = Some (answer (qs ! 0))
                                              then 0 + marks (qs ! 0) else 0),
                                     answers =
                                       [\<lparr>entry_question = question_text (qs ! 0),
                                         selected = c', correct = answer (qs ! 0),
                                         is_correct = (c' = Some (answer (qs ! 0)))\<rparr>]\<rparr>\<rparr>)))
       \<and> quiz_app ps b x t =
           Inr ([Quiz_finished_score (points t) (sum_list (map marks ps))], t)"
proof -
  from assms(2) have lt: "index s < length qs" and last: "\<not> index s + 1 < length qs"
    by simp_all
  from lt have ne: "qs \<noteq> []" by auto
  let ?s2 = "record_answer (qs ! index s) c s"
  let ?a = "\<lparr>att_score = score ?s2, max_score = py_sum lib (map marks qs),
             details = answers ?s2\<rparr>"
  let ?z = "\<lparr>index = 0, score = 0, answers = []\<rparr> :: 'a quiz_vars"
  let ?w1 = "\<lparr>session = Some ?z, attempts = attempts w @ [?a]\<rparr>"
  have first: "student_panel lib qs c True w =
               (case insert_one lib ?a of
                  None \<Rightarrow> Inr ([Quiz_finished (score ?s2)], ?w1)
                | Some e \<Rightarrow> Inl (e, w\<lparr>session := Some ?s2\<rparr>))"
    using panel_submit [OF assms(1) lt, of lib c] last
    by (simp add: fresh_def split: option.split)
  have second: "student_panel lib qs c' True ?w1 =
                  student_panel lib qs c' True (?w1\<lparr>session := None\<rparr>)"
    using ne by (simp add: student_panel_def fresh_def Let_def split: option.split)
  have s': "session ?w1 = Some ?z" by simp
  have lt': "index ?z < length qs" using ne by simp
  have third: "1 < length qs \<longrightarrow>
                student_panel lib qs c' True ?w1 =
                  Inr ([], ?w1\<lparr>session :=
                               Some \<lparr>index = 1,
                                     score = (if c' = Some (answer (qs ! 0))
                                              then 0 + marks (qs ! 0) else 0),
                                     answers =
                                       [\<lparr>entry_question = question_text (qs ! 0),
                                         selected = c', correct = answer (qs ! 0),
                                         is_correct = (c' = Some (answer (qs ! 0)))\<rparr>]\<rparr>\<rparr>)"
    using panel_submit [OF s' lt', of lib c']
    by (simp add: record_answer_eq entry_for_def)
  have idle: "quiz_app ps b x t =
                Inr ([Quiz_finished_score (points t) (sum_list (map marks ps))], t)"
    by (rule app_idle [OF assms(3,4)])
  from first second third idle show ?thesis
    unfolding Let_def by (intro conjI)
qed

theorem completion_resets_the_session_witness:
  "session \<lparr>session =
             Some \<lparr>index = 1, score = 1,
                   answers =
                     [\<lparr>entry_question = ''Which keyword is used to define a function in Python?'',
                       selected = Some ''def'', correct = ''def'', is_correct = True\<rparr>]\<rparr>,
           attempts = []\<rparr> =
     Some \<lparr>index = 1, score = 1 :: int,
           answers =
             [\<lparr>entry_question = ''Which keyword is used to define a function in Python?'',
               selected = Some ''def'', correct = ''def'', is_correct = True\<rparr>]\<rparr>
   \<and> index \<lparr>index = 1, score = 1 :: int,
             answers =
               [\<lparr>entry_question = ''Which keyword is used to define a function in Python?'',
                 selected = Some ''def'', correct = ''def'', is_correct = True\<rparr>]\<rparr> + 1
       = length QUESTIONS
   \<and> finished \<lparr>current = 1, points = 2, finished = True\<rparr>
   \<and> Submit_answer \<noteq> Restart_quiz
   \<and> 1 < length QUESTIONS
   \<and> student_panel int_library QUESTIONS (Some ''tuple'') True
        \<lparr>session =
           Some \<lparr>index = 1, score = 1,
                 answers =
                   [\<lparr>entry_question = ''Which keyword is used to define a function in Python?'',
                     selected = Some ''def'', correct = ''def'', is_correct = True\<rparr>]\<rparr>,
         attempts = []\<rparr> =
       Inr ([Quiz_finished 2],
            \<lparr>session = Some \<lparr>index = 0, score = 0, answers = []\<rparr>,
             attempts =
               [\<lparr>att_score = 2, max_score = 2,
                 details =
                   [\<lparr>entry_question = ''Which keyword is used to define a function in Python?'',
                     selected = Some ''def'', correct = ''def'', is_correct = True\<rparr>,
                    \<lparr>entry_question = ''Which data type is immutable?'',
                     selected = Some ''tuple'', correct = ''tuple'', is_correct = True\<rparr>]\<rparr>]\<rparr>)
   \<and> student_panel int_library QUESTIONS (Some ''func'') True
        \<lparr>session = Some \<lparr>index = 0, score = 0, answers = []\<rparr>,
         attempts =
           [\<lparr>att_score = 2, max_score = 2,
             details =
               [\<lparr>entry_question = ''Which keyword is used to define a function in Python?'',
                 selected = Some ''def'', correct = ''def'', is_correct = True\<rparr>,
                \<lparr>entry_question = ''Which data type is immutable?'',
                 selected = Some ''tuple'', correct = ''tuple'', is_correct = True\<rparr>]\<rparr>]\<rparr> =
       Inr ([],
            \<lparr>session =
               Some \<lparr>index = 1, score = 0,
                     answers =
                       [\<lparr>entry_question = ''Which keyword is used to define a function in Python?'',
                         selected = Some ''func'', correct = ''def'', is_correct = False\<rparr>]\<rparr>,
             attempts =
               [\<lparr>att_score = 2, max_score = 2,
                 details =
                   [\<lparr>entry_question = ''Which keyword is used to define a function in Python?'',
                     selected = Some ''def'', correct = ''def'', is_correct = True\<rparr>,
                    \<lparr>entry_question = ''Which data type is immutable?'',
                     selected = Some ''tuple'', correct = ''tuple'', is_correct = True\<rparr>]\<rparr>]\<rparr>)
   \<and> quiz_app QUESTIONS Submit_answer (Some ''def'') \<lparr>current = 1, points = 2, finished = True\<rparr> =
       Inr ([Quiz_finished_score 2 2], \<lparr>current = 1, points = 2, finished = True\<rparr>)"
proof -
  let ?s = "\<lparr>index = 1, score = 1 :: int,
             answers =
               [\<lparr>entry_question = ''Which keyword is used to define a function in Python?'',
                 selected = Some ''def'', correct = ''def'', is_correct = True\<rparr>]\<rparr>"
  let ?w = "\<lparr>session = Some ?s, attempts = []\<rparr>"
  let ?t = "\<lparr>current = 1, points = 2, finished = True\<rparr>"
  have h1: "session ?w = Some ?s" by simp
  have h2: "index ?s + 1 = length QUESTIONS" by (simp add: QUESTIONS_def)
  have h3: "finished ?t" by simp
  have h4: "Submit_answer \<noteq> Restart_quiz" by simp
  have h5: "1 < length QUESTIONS" by (simp add: QUESTIONS_def)
  from completion_resets_the_session [OF h1 h2 h3 h4,
      of "Some ''tuple''" int_library "Some ''func''" QUESTIONS "Some ''def''"] h1 h2 h3 h5
  show ?thesis
    by (simp add: Let_def QUESTIONS_def int_library_def int64_def record_answer_def
        student_panel_def fresh_def)
qed

text \<open>
  C6. The spec lets the start fail when the question set is empty or when a question's
  answer is not among its options. The student panel only looks at emptiness. Here is
  a session started on a question whose answer is no option.
\<close>

theorem start_checks_answer_counterexample:
  "''4'' \<notin> set [''3'', ''5'']
   \<and> student_panel int_library
       [\<lparr>question_text = ''2+2?'', options = [''3'', ''5''], answer = ''4'', marks = 1\<rparr>]
       (Some ''3'') False \<lparr>session = None, attempts = []\<rparr> =
     Inr ([], \<lparr>session = Some \<lparr>index = 0, score = 0, answers = []\<rparr>, attempts = []\<rparr>)"
  by (simp add: student_panel_def fresh_def)

text \<open>
  C6, as the scripts have it. With no questions the panel warns and leaves the session
  variables alone; with questions and no session yet, it sets index 0, score 0 and an
  empty log, without looking at the answers. Membership of the answer is checked
  where questions enter: the "Add Question" click passes a question on only when its
  answer is one of the options it parsed.
\<close>

theorem start_only_rejects_empty_set:
  "student_panel lib [] c b w = Inr ([No_questions], w)
   \<and> (qs \<noteq> [] \<longrightarrow>
        student_panel lib qs c False \<lparr>session = None, attempts = saved\<rparr> =
          Inr ([], \<lparr>session = Some \<lparr>index = 0, score = 0, answers = []\<rparr>, attempts = saved\<rparr>))
   \<and> (ans \<notin> set (filter (\<lambda>p. p \<noteq> []) (map strip (split_comma raw))) \<longrightarrow>
        add_question_click course qtext raw ans mk \<in> {Fill_all_fields, Answer_must_be_option})
   \<and> (add_question_click course qtext raw ans mk = Question_added k q \<longrightarrow>
        answer q \<in> set (options q))"
proof (intro conjI impI)
  show "student_panel lib [] c b w = Inr ([No_questions], w)"
    by (simp add: student_panel_def)
next
  assume "qs \<noteq> []"
  then show "student_panel lib qs c False \<lparr>session = None, attempts = saved\<rparr> =
          Inr ([], \<lparr>session = Some \<lparr>index = 0, score = 0, answers = []\<rparr>, attempts = saved\<rparr>)"
    by (simp add: student_panel_def fresh_def)
next
  assume "ans \<notin> set (filter (\<lambda>p. p \<noteq> []) (map strip (split_comma raw)))"
  then show "add_question_click course qtext raw ans mk \<in> {Fill_all_fields, Answer_must_be_option}"
    by (simp add: add_question_click_def Let_def)
next
  assume "add_question_click course qtext raw ans mk = Question_added k q"
  then show "answer q \<in> set (options q)" by (rule add_question_click_checked)
qed

theorem start_only_rejects_empty_set_witness:
  "student_panel int_library [] None False \<lparr>session = None, attempts = []\<rparr> =
     Inr ([No_questions], \<lparr>session = None, attempts = []\<rparr>)
   \<and> [\<lparr>question_text = ''2+2?'', options = [''3'', ''5''], answer = ''4'', marks = 1 :: int\<rparr>] \<noteq> []
   \<and> student_panel int_library
       [\<lparr>question_text = ''2+2?'', options = [''3'', ''5''], answer = ''4'', marks = 1\<rparr>]
       (Some ''3'') False \<lparr>session = None, attempts = []\<rparr> =
     Inr ([], \<lparr>session = Some \<lparr>index = 0, score = 0, answers = []\<rparr>, attempts = []\<rparr>)
   \<and> '' 4'' \<notin> set (filter (\<lambda>p. p \<noteq> [])
                       (map strip (split_comma (''3, 4 ,5,'' @ [CHR 0xA0]))))
   \<and> add_question_click ''cs101'' ''2+2?'' (''3, 4 ,5,'' @ [CHR 0xA0]) '' 4'' (1 :: int)
       \<in> {Fill_all_fields, Answer_must_be_option}
   \<and> add_question_click ''cs101'' ''2+2?'' (''3, 4 ,5,'' @ [CHR 0xA0]) ''4'' (1 :: int) =
       Question_added ''cs101''
         \<lparr>question_text = ''2+2?'', options = [''3'', ''4'', ''5''], answer = ''4'', marks = 1\<rparr>
   \<and> answer \<lparr>question_text = ''2+2?'', options = [''3'', ''4'', ''5''], answer = ''4'',
              marks = 1 :: int\<rparr>
       \<in> set (options \<lparr>question_text = ''2+2?'', options = [''3'', ''4'', ''5''],
                        answer = ''4'', marks = 1 :: int\<rparr>)"
proof -
  let ?bad = "\<lparr>question_text = ''2+2?'', options = [''3'', ''5''], answer = ''4'', marks = 1 :: int\<rparr>"
  let ?good = "\<lparr>question_text = ''2+2?'', options = [''3'', ''4'', ''5''], answer = ''4'',
                marks = 1 :: int\<rparr>"
  let ?raw = "''3, 4 ,5,'' @ [CHR 0xA0]"
  let ?w = "\<lparr>session = None, attempts = []\<rparr> :: int world"
  have ne: "[?bad] \<noteq> []" by simp
  have out: "'' 4'' \<notin> set (filter (\<lambda>p. p \<noteq> []) (map strip (split_comma ?raw)))"
    unfolding parsed_example by simp
  have added: "add_question_click ''cs101'' ''2+2?'' ?raw ''4'' (1 :: int) =
                 Question_added ''cs101'' ?good"
    unfolding add_question_click_def parsed_example by simp
  note t1 = start_only_rejects_empty_set
    [of int_library None False ?w "[?bad]" "[]"
        "'' 4''" ?raw "''cs101''" "''2+2?''" "1 :: int" "''cs101''" ?good]
  note t2 = start_only_rejects_empty_set
    [of int_library "Some ''3''" False ?w "[?bad]" "[]"
        "''4''" ?raw "''cs101''" "''2+2?''" "1 :: int" "''cs101''" ?good]
  from t1 have a: "student_panel int_library [] None False ?w = Inr ([No_questions], ?w)"
    by blast
  from t2 ne have b: "student_panel int_library [?bad] (Some ''3'') False ?w =
     Inr ([], \<lparr>session = Some \<lparr>index = 0, score = 0, answers = []\<rparr>, attempts = []\<rparr>)" by blast
  from t1 out have c: "add_question_click ''cs101'' ''2+2?'' ?raw '' 4'' (1 :: int)
       \<in> {Fill_all_fields, Answer_must_be_option}" by blast
  from t2 added have d: "answer ?good \<in> set (options ?good)" by blast
  from a ne b out c added d show ?thesis by (intro conjI)
qed




text \<open>
  C8. The spec fixes the question set when the session starts. \<^verbatim>\<open>q/q.py\<close> calls
  \<^verbatim>\<open>get_questions\<close> in every run, so each submission is scored against the question
  at the current index of the list read in that run, and an edit of the bank between
  two submissions reaches the running quiz. Here is such an edit, next to the same
  answers on the unedited bank.
\<close>

theorem bank_edit_changes_running_quiz_counterexample:
  "submit_all
     [(int_library, QUESTIONS, Some ''def''),
      (int_library,
       [\<lparr>question_text = ''Which keyword is used to define a function in Python?'',
         options = [''func'', ''def'', ''function'', ''lambda''],
         answer = ''def'', marks = 1\<rparr>,
        \<lparr>question_text = ''Which data type is mutable?'',
         options = [''list'', ''tuple''], answer = ''list'', marks = 5\<rparr>],
       Some ''tuple'')]
     opened =
     Inr \<lparr>session = Some \<lparr>index = 0, score = 0, answers = []\<rparr>,
          attempts =
            [\<lparr>att_score = 1, max_score = 6,
              details =
                [\<lparr>entry_question = ''Which keyword is used to define a function in Python?'',
                  selected = Some ''def'', correct = ''def'', is_correct = True\<rparr>,
                 \<lparr>entry_question = ''Which data type is mutable?'',
                  selected = Some ''tuple'', correct = ''list'', is_correct = False\<rparr>]\<rparr>]\<rparr>
   \<and> take_quiz int_library QUESTIONS [Some ''def'', Some ''tuple''] opened =
     Inr \<lparr>session = Some \<lparr>index = 0, score = 0, answers = []\<rparr>,
          attempts =
            [\<lparr>att_score = 2, max_score = 2,
              details =
                [\<lparr>entry_question = ''Which keyword is used to define a function in Python?'',
                  selected = Some ''def'', correct = ''def'', is_correct = True\<rparr>,
                 \<lparr>entry_question = ''Which data type is immutable?'',
                  selected = Some ''tuple'', correct = ''tuple'', is_correct = True\<rparr>]\<rparr>]\<rparr>"
  by (simp add: QUESTIONS_def opened_def fresh_def take_quiz_def int_library_def int64_def
      student_panel_def record_answer_def Let_def)

text \<open>
  C8, as the scripts have it. When every run reads the same non-empty list, the
  attempt handed to \<^verbatim>\<open>save_attempt\<close> logs the questions and answers of that list in
  order and its maximum is what \<^verbatim>\<open>sum\<close> returns on that list's marks; it is saved
  unless the insert raises. In general a run scores the question at the current index
  of the list it has just read, and takes length and total marks from that list.
\<close>

theorem unedited_bank_fixes_the_questions:
  assumes "qs \<noteq> []" and "length ds = length qs"
    and "session w = Some s" and "index s < length rs"
  shows "(\<exists>a. map entry_question (details a) = map question_text qs
             \<and> map correct (details a) = map answer qs
             \<and> max_score a = py_sum lib (map marks qs)
             \<and> take_quiz lib qs ds opened =
                 (case insert_one lib a of
                    None \<Rightarrow> Inr \<lparr>session = Some fresh, attempts = [a]\<rparr>
                  | Some e \<Rightarrow>
                      Inl (e, \<lparr>session = Some \<lparr>index = length qs - 1, score = att_score a,
                                               answers = details a\<rparr>,
                              attempts = []\<rparr>)))
       \<and> student_panel lib rs c True w =
           (let s2 = record_answer (rs ! index s) c s;
                a = \<lparr>att_score = score s2, max_score = py_sum lib (map marks rs),
                     details = answers s2\<rparr>
            in if index s + 1 < length rs
               then Inr ([], w\<lparr>session := Some (s2\<lparr>index := index s + 1\<rparr>)\<rparr>)
               else (case insert_one lib a of
                       None \<Rightarrow>
                         Inr ([Quiz_finished (score s2)],
                              \<lparr>session = Some fresh, attempts = attempts w @ [a]\<rparr>)
                     | Some e \<Rightarrow> Inl (e, w\<lparr>session := Some s2\<rparr>)))"
proof (intro conjI)
  let ?a = "\<lparr>att_score = tally 0 (zip qs ds), max_score = py_sum lib (map marks qs),
             details = entries qs ds\<rparr>"
  have run: "take_quiz lib qs ds opened =
                 (case insert_one lib ?a of
                    None \<Rightarrow> Inr \<lparr>session = Some fresh, attempts = [?a]\<rparr>
                  | Some e \<Rightarrow>
                      Inl (e, \<lparr>session = Some \<lparr>index = length qs - 1, score = att_score ?a,
                                               answers = details ?a\<rparr>,
                              attempts = []\<rparr>))"
    using take_quiz_opened_last [OF assms(1,2), of lib] by (simp split: option.split)
  from entries_questions [OF assms(2)]
  have "map entry_question (details ?a) = map question_text qs"
    and "map correct (details ?a) = map answer qs"
    and "max_score ?a = py_sum lib (map marks qs)"
    by simp_all
  with run
  show "\<exists>a. map entry_question (details a) = map question_text qs
             \<and> map correct (details a) = map answer qs
             \<and> max_score a = py_sum lib (map marks qs)
             \<and> take_quiz lib qs ds opened =
                 (case insert_one lib a of
                    None \<Rightarrow> Inr \<lparr>session = Some fresh, attempts = [a]\<rparr>
                  | Some e \<Rightarrow>
                      Inl (e, \<lparr>session = Some \<lparr>index = length qs - 1, score = att_score a,
                                               answers = details a\<rparr>,
                              attempts = []\<rparr>))"
    by blast
next
  show "student_panel lib rs c True w =
           (let s2 = record_answer (rs ! index s) c s;
                a = \<lparr>att_score = score s2, max_score = py_sum lib (map marks rs),
                     details = answers s2\<rparr>
            in if index s + 1 < length rs
               then Inr ([], w\<lparr>session := Some (s2\<lparr>index := index s + 1\<rparr>)\<rparr>)
               else (case insert_one lib a of
                       None \<Rightarrow>
                         Inr ([Quiz_finished (score s2)],
                              \<lparr>session = Some fresh, attempts = attempts w @ [a]\<rparr>)
                     | Some e \<Rightarrow> Inl (e, w\<lparr>session := Some s2\<rparr>)))"
    using panel_submit [OF assms(3,4), of lib c] by (simp add: Let_def split: option.split)
qed

theorem unedited_bank_fixes_the_questions_witness:
  "QUESTIONS \<noteq> [] \<and> length [Some ''def'', Some ''list''] = length QUESTIONS
   \<and> session (opened :: int world) = Some fresh
   \<and> index (fresh :: int quiz_vars) < length QUESTIONS
   \<and> (\<exists>a. map entry_question (details a) = map question_text QUESTIONS
          \<and> map correct (details a) = map answer QUESTIONS
          \<and> max_score a = py_sum int_library (map marks QUESTIONS)
          \<and> take_quiz int_library QUESTIONS [Some ''def'', Some ''list''] opened =
              (case insert_one int_library a of
                 None \<Rightarrow> Inr \<lparr>session = Some fresh, attempts = [a]\<rparr>
               | Some e \<Rightarrow>
                   Inl (e, \<lparr>session = Some \<lparr>index = length QUESTIONS - 1, score = att_score a,
                                            answers = details a\<rparr>,
                           attempts = []\<rparr>)))
   \<and> take_quiz int_library QUESTIONS [Some ''def'', Some ''list''] opened =
       Inr \<lparr>session = Some \<lparr>index = 0, score = 0, answers = []\<rparr>,
            attempts =
              [\<lparr>att_score = 1, max_score = 2,
                details =
                  [\<lparr>entry_question = ''Which keyword is used to define a function in Python?'',
                    selected = Some ''def'', correct = ''def'', is_correct = True\<rparr>,
                   \<lparr>entry_question = ''Which data type is immutable?'',
                    selected = Some ''list'', correct = ''tuple'', is_correct = False\<rparr>]\<rparr>]\<rparr>
   \<and> student_panel int_library QUESTIONS (Some ''def'') True opened =
       Inr ([], \<lparr>session =
                   Some \<lparr>index = 1, score = 1,
                         answers =
                           [\<lparr>entry_question =
                               ''Which keyword is used to define a function in Python?'',
                             selected = Some ''def'', correct = ''def'',
                             is_correct = True\<rparr>]\<rparr>,
                 attempts = []\<rparr>)"
proof -
  have h1: "QUESTIONS \<noteq> []" by (simp add: QUESTIONS_def)
  have h2: "length [Some ''def'', Some ''list''] = length QUESTIONS" by (simp add: QUESTIONS_def)
  have h3: "session (opened :: int world) = Some fresh" by (simp add: opened_def)
  have h4: "index (fresh :: int quiz_vars) < length QUESTIONS" by (simp add: fresh_def QUESTIONS_def)
  note t = unedited_bank_fixes_the_questions [OF h1 h2 h3 h4, of int_library "Some ''def''"]
  from t have a: "\<exists>a. map entry_question (details a) = map question_text QUESTIONS
          \<and> map correct (details a) = map answer QUESTIONS
          \<and> max_score a = py_sum int_library (map marks QUESTIONS)
          \<and> take_quiz int_library QUESTIONS [Some ''def'', Some ''list''] opened =
              (case insert_one int_library a of
                 None \<Rightarrow> Inr \<lparr>session = Some fresh, attempts = [a]\<rparr>
               | Some e \<Rightarrow>
                   Inl (e, \<lparr>session = Some \<lparr>index = length QUESTIONS - 1, score = att_score a,
                                            answers = details a\<rparr>,
                           attempts = []\<rparr>))"
    by (rule conjunct1)
  have b: "take_quiz int_library QUESTIONS [Some ''def'', Some ''list''] opened =
       Inr \<lparr>session = Some \<lparr>index = 0, score = 0, answers = []\<rparr>,
            attempts =
              [\<lparr>att_score = 1, max_score = 2,
                details =
                  [\<lparr>entry_question = ''Which keyword is used to define a function in Python?'',
                    selected = Some ''def'', correct = ''def'', is_correct = True\<rparr>,
                   \<lparr>entry_question = ''Which data type is immutable?'',
                    selected = Some ''list'', correct = ''tuple'', is_correct = False\<rparr>]\<rparr>]\<rparr>"
    by (simp add: QUESTIONS_def opened_def fresh_def take_quiz_def int_library_def
        int64_def student_panel_def record_answer_def Let_def)
  from t have c: "student_panel int_library QUESTIONS (Some ''def'') True opened =
       Inr ([], \<lparr>session =
                   Some \<lparr>index = 1, score = 1,
                         answers =
                           [\<lparr>entry_question =
                               ''Which keyword is used to define a function in Python?'',
                             selected = Some ''def'', correct = ''def'',
                             is_correct = True\<rparr>]\<rparr>,
                 attempts = []\<rparr>)"
    by (simp add: Let_def QUESTIONS_def opened_def fresh_def record_answer_def)
  from h1 h2 h3 h4 a b c show ?thesis by (intro conjI)
qed

text \<open>
  C9. The spec takes the two quiz flows for the same engine. They part where
  \<^verbatim>\<open>q/q.py\<close> saves: on the questions of \<^verbatim>\<open>quiz_app.py\<close> with a server that refuses the
  write, and on
  a bank whose integer marks reach \<open>2^63\<close>, the inline quiz finishes on the last
  answer while the panel raises, saves nothing and stays on the last question.
\<close>

theorem engines_part_at_the_save_counterexample:
  "press_all QUESTIONS [Some ''def'', Some ''tuple''] initial =
     Inr ([Correct, Correct], \<lparr>current = 1, points = 2, finished = True\<rparr>)
   \<and> take_quiz read_only_server QUESTIONS [Some ''def'', Some ''tuple''] opened =
     Inl (OperationFailure,
          \<lparr>session =
             Some \<lparr>index = 1, score = 2,
                   answers =
                     [\<lparr>entry_question = ''Which keyword is used to define a function in Python?'',
                       selected = Some ''def'', correct = ''def'', is_correct = True\<rparr>,
                      \<lparr>entry_question = ''Which data type is immutable?'',
                       selected = Some ''tuple'', correct = ''tuple'', is_correct = True\<rparr>]\<rparr>,
           attempts = []\<rparr>)
   \<and> press_all
       [\<lparr>question_text = ''2+2?'', options = [''3'', ''4''], answer = ''4'',
         marks = 9223372036854775808\<rparr>]
       [Some ''4''] initial =
     Inr ([Correct], \<lparr>current = 0, points = 9223372036854775808, finished = True\<rparr>)
   \<and> take_quiz int_library
       [\<lparr>question_text = ''2+2?'', options = [''3'', ''4''], answer = ''4'',
         marks = 9223372036854775808\<rparr>]
       [Some ''4''] opened =
     Inl (OverflowError,
          \<lparr>session =
             Some \<lparr>index = 0, score = 9223372036854775808,
                   answers =
                     [\<lparr>entry_question = ''2+2?'', selected = Some ''4'', correct = ''4'',
                       is_correct = True\<rparr>]\<rparr>,
           attempts = []\<rparr>)"
  by (simp add: QUESTIONS_def initial_def opened_def fresh_def take_quiz_def int_library_def
      int64_def read_only_server_def student_panel_def record_answer_def quiz_app_def Let_def)

text \<open>
  C9, as the scripts have it. On every non-empty list of questions with integer marks
  and one submitted string per question, the two flows agree after every proper prefix
  of the answers: neither is complete, and score and verdicts are the same. On the
  last answer the inline quiz finishes, and the panel hands \<^verbatim>\<open>save_attempt\<close> an attempt
  with the inline quiz's final score and verdicts; the panel is complete, with this
  attempt saved, exactly when the insert raises nothing.
\<close>

theorem engines_agree:
  assumes "qs \<noteq> []" and "length cs = length qs"
  shows "(\<exists>a ms s. press_all qs (map Some cs) initial = Inr (ms, s)
                  \<and> finished s
                  \<and> att_score a = points s
                  \<and> map is_correct (details a) = map (\<lambda>m. m = Correct) ms
                  \<and> length ms = length qs
                  \<and> take_quiz lib qs (map Some cs) opened =
                      (case insert_one lib a of
                         None \<Rightarrow> Inr \<lparr>session = Some fresh, attempts = [a]\<rparr>
                       | Some e \<Rightarrow>
                           Inl (e, \<lparr>session = Some \<lparr>index = length qs - 1,
                                                    score = att_score a,
                                                    answers = details a\<rparr>,
                                   attempts = []\<rparr>)))
       \<and> (\<forall>k<length qs.
             \<exists>v ms s. take_quiz lib qs (map Some (take k cs)) opened =
                        Inr \<lparr>session = Some v, attempts = []\<rparr>
                    \<and> press_all qs (map Some (take k cs)) initial = Inr (ms, s)
                    \<and> \<not> finished s
                    \<and> score v = points s
                    \<and> map is_correct (answers v) = map (\<lambda>m. m = Correct) ms)"
proof (intro conjI allI impI)
  let ?a = "\<lparr>att_score = tally 0 (zip qs (map Some cs)),
             max_score = py_sum lib (map marks qs),
             details = entries qs (map Some cs)\<rparr>"
  let ?s = "\<lparr>current = length qs - 1, points = tally 0 (zip qs (map Some cs)), finished = True\<rparr>"
  have l: "length (map Some cs) = length qs" using assms(2) by simp
  have db: "take_quiz lib qs (map Some cs) opened =
                      (case insert_one lib ?a of
                         None \<Rightarrow> Inr \<lparr>session = Some fresh, attempts = [?a]\<rparr>
                       | Some e \<Rightarrow>
                           Inl (e, \<lparr>session = Some \<lparr>index = length qs - 1,
                                                    score = att_score ?a,
                                                    answers = details ?a\<rparr>,
                                   attempts = []\<rparr>))"
    using take_quiz_opened_last [OF assms(1) l, of lib] by (simp split: option.split)
  have inl: "press_all qs (map Some cs) initial = Inr (verdicts qs cs, ?s)"
    by (rule press_all_initial_complete [OF assms(1,2)])
  have "finished ?s" and "att_score ?a = points ?s"
    and "map is_correct (details ?a) = map (\<lambda>m. m = Correct) (verdicts qs cs)"
    and "length (verdicts qs cs) = length qs"
    using assms(2) by (simp_all add: is_correct_entries length_verdicts)
  with inl db
  show "\<exists>a ms s. press_all qs (map Some cs) initial = Inr (ms, s)
                  \<and> finished s
                  \<and> att_score a = points s
                  \<and> map is_correct (details a) = map (\<lambda>m. m = Correct) ms
                  \<and> length ms = length qs
                  \<and> take_quiz lib qs (map Some cs) opened =
                      (case insert_one lib a of
                         None \<Rightarrow> Inr \<lparr>session = Some fresh, attempts = [a]\<rparr>
                       | Some e \<Rightarrow>
                           Inl (e, \<lparr>session = Some \<lparr>index = length qs - 1,
                                                    score = att_score a,
                                                    answers = details a\<rparr>,
                                   attempts = []\<rparr>))"
    by blast
next
  fix k assume k: "k < length qs"
  then have l1: "length (map Some (take k cs)) < length qs"
    and l2: "length (take k cs) < length qs"
    using assms(2) by simp_all
  from take_quiz_opened_advance [OF l1, of lib] press_all_initial_advance [OF l2]
  show "\<exists>v ms s. take_quiz lib qs (map Some (take k cs)) opened =
                        Inr \<lparr>session = Some v, attempts = []\<rparr>
                    \<and> press_all qs (map Some (take k cs)) initial = Inr (ms, s)
                    \<and> \<not> finished s
                    \<and> score v = points s
                    \<and> map is_correct (answers v) = map (\<lambda>m. m = Correct) ms"
    by (simp add: is_correct_entries)
qed

theorem engines_agree_witness:
  "QUESTIONS \<noteq> [] \<and> length [''def'', ''list''] = length QUESTIONS
   \<and> (\<exists>a ms s. press_all QUESTIONS (map Some [''def'', ''list'']) initial = Inr (ms, s)
                  \<and> finished s
                  \<and> att_score a = points s
                  \<and> map is_correct (details a) = map (\<lambda>m. m = Correct) ms
                  \<and> length ms = length QUESTIONS
                  \<and> take_quiz int_library QUESTIONS (map Some [''def'', ''list'']) opened =
                      (case insert_one int_library a of
                         None \<Rightarrow> Inr \<lparr>session = Some fresh, attempts = [a]\<rparr>
                       | Some e \<Rightarrow>
                           Inl (e, \<lparr>session = Some \<lparr>index = length QUESTIONS - 1,
                                                    score = att_score a,
                                                    answers = details a\<rparr>,
                                   attempts = []\<rparr>)))
   \<and> (\<exists>v ms s. take_quiz int_library QUESTIONS (map Some (take 1 [''def'', ''list''])) opened =
                        Inr \<lparr>session = Some v, attempts = []\<rparr>
                    \<and> press_all QUESTIONS (map Some (take 1 [''def'', ''list''])) initial = Inr (ms, s)
                    \<and> \<not> finished s
                    \<and> score v = points s
                    \<and> map is_correct (answers v) = map (\<lambda>m. m = Correct) ms)
   \<and> press_all QUESTIONS (map Some [''def'', ''list'']) initial =
       Inr ([Correct, Wrong ''tuple''], \<lparr>current = 1, points = 1, finished = True\<rparr>)
   \<and> take_quiz int_library QUESTIONS (map Some [''def'', ''list'']) opened =
       Inr \<lparr>session = Some \<lparr>index = 0, score = 0, answers = []\<rparr>,
            attempts =
              [\<lparr>att_score = 1, max_score = 2,
                details =
                  [\<lparr>entry_question = ''Which keyword is used to define a function in Python?'',
                    selected = Some ''def'', correct = ''def'', is_correct = True\<rparr>,
                   \<lparr>entry_question = ''Which data type is immutable?'',
                    selected = Some ''list'', correct = ''tuple'', is_correct = False\<rparr>]\<rparr>]\<rparr>"
proof -
  have h1: "QUESTIONS \<noteq> []" by (simp add: QUESTIONS_def)
  have h2: "length [''def'', ''list''] = length QUESTIONS" by (simp add: QUESTIONS_def)
  have one: "(1::nat) < length QUESTIONS" by (simp add: QUESTIONS_def)
  note t = engines_agree [OF h1 h2, of int_library]
  from t have a: "\<exists>a ms s. press_all QUESTIONS (map Some [''def'', ''list'']) initial = Inr (ms, s)
                  \<and> finished s
                  \<and> att_score a = points s
                  \<and> map is_correct (details a) = map (\<lambda>m. m = Correct) ms
                  \<and> length ms = length QUESTIONS
                  \<and> take_quiz int_library QUESTIONS (map Some [''def'', ''list'']) opened =
                      (case insert_one int_library a of
                         None \<Rightarrow> Inr \<lparr>session = Some fresh, attempts = [a]\<rparr>
                       | Some e \<Rightarrow>
                           Inl (e, \<lparr>session = Some \<lparr>index = length QUESTIONS - 1,
                                                    score = att_score a,
                                                    answers = details a\<rparr>,
                                   attempts = []\<rparr>))"
    by (rule conjunct1)
  from t have "\<forall>k<length QUESTIONS.
             \<exists>v ms s. take_quiz int_library QUESTIONS (map Some (take k [''def'', ''list''])) opened =
                        Inr \<lparr>session = Some v, attempts = []\<rparr>
                    \<and> press_all QUESTIONS (map Some (take k [''def'', ''list''])) initial = Inr (ms, s)
                    \<and> \<not> finished s
                    \<and> score v = points s
                    \<and> map is_correct (answers v) = map (\<lambda>m. m = Correct) ms"
    by (rule conjunct2)
  with one have b: "\<exists>v ms s. take_quiz int_library QUESTIONS (map Some (take 1 [''def'', ''list''])) opened =
                        Inr \<lparr>session = Some v, attempts = []\<rparr>
                    \<and> press_all QUESTIONS (map Some (take 1 [''def'', ''list''])) initial = Inr (ms, s)
                    \<and> \<not> finished s
                    \<and> score v = points s
                    \<and> map is_correct (answers v) = map (\<lambda>m. m = Correct) ms"
    by blast
  have c: "press_all QUESTIONS (map Some [''def'', ''list'']) initial =
       Inr ([Correct, Wrong ''tuple''], \<lparr>current = 1, points = 1, finished = True\<rparr>)"
    by (simp add: QUESTIONS_def initial_def quiz_app_def Let_def)
  have d: "take_quiz int_library QUESTIONS (map Some [''def'', ''list'']) opened =
       Inr \<lparr>session = Some \<lparr>index = 0, score = 0, answers = []\<rparr>,
            attempts =
              [\<lparr>att_score = 1, max_score = 2,
                details =
                  [\<lparr>entry_question = ''Which keyword is used to define a function in Python?'',
                    selected = Some ''def'', correct = ''def'', is_correct = True\<rparr>,
                   \<lparr>entry_question = ''Which data type is immutable?'',
                    selected = Some ''list'', correct = ''tuple'', is_correct = False\<rparr>]\<rparr>]\<rparr>"
    by (simp add: QUESTIONS_def opened_def fresh_def take_quiz_def int_library_def
        int64_def student_panel_def record_answer_def Let_def)
  from h1 h2 a b c d show ?thesis by (intro conjI)
qed

text \<open>
  C10. In \<^verbatim>\<open>quiz_app.py\<close> a click on "Submit answer" with nothing selected shows a
  warning and leaves score, current question and finished flag as they were.
\<close>

theorem no_selection_changes_nothing:
  assumes "\<not> finished s" and "current s < length qs"
  shows "quiz_app qs Submit_answer None s = Inr ([Please_select], s)"
  using assms by (simp add: quiz_app_def)

theorem no_selection_changes_nothing_witness:
  "\<not> finished \<lparr>current = 1, points = 1, finished = False\<rparr>
   \<and> current \<lparr>current = 1, points = 1, finished = False\<rparr> < length QUESTIONS
   \<and> quiz_app QUESTIONS Submit_answer None \<lparr>current = 1, points = 1, finished = False\<rparr> =
       Inr ([Please_select], \<lparr>current = 1, points = 1, finished = False\<rparr>)"
proof -
  have h1: "\<not> finished \<lparr>current = 1, points = 1, finished = False\<rparr>" by simp
  have h2: "current \<lparr>current = 1, points = 1, finished = False\<rparr> < length QUESTIONS"
    by (simp add: QUESTIONS_def)
  from no_selection_changes_nothing [OF h1 h2] h1 h2 show ?thesis by (intro conjI)
qed

end
